theory Spec2Isabelle
  imports Main
begin

section \<open>JavaScript values that the handler sees\<close>

text \<open>
  The endpoint of \<^verbatim>\<open>src/api/generate.js\<close> reads a request, builds one JSON document and
  posts it to the completion service. Every value it touches is a parsed JSON value or
  \<^verbatim>\<open>undefined\<close>. A JSON value is modelled by the datatype \<open>json\<close>, and \<^verbatim>\<open>undefined\<close> by
  \<open>None\<close> in \<open>json option\<close>.

  A JavaScript number is a double. The handler makes two observations of a number only:
  whether it is falsy (plus or minus zero; \<^verbatim>\<open>JSON.parse\<close> never yields NaN) and what
  \<^verbatim>\<open>String(n)\<close> is. A number is therefore kept as these two observations.
\<close>

datatype js_number = JsNumber (is_zero: bool) (number_text: string)

datatype json =
    JNull
  | JBool bool
  | JNum js_number
  | JStr string
  | JArr "json list"
  | JObj "(string \<times> json) list"

text \<open>
  A thrown value. Everything that can throw inside the handler (\<^verbatim>\<open>req.json()\<close>,
  destructuring, string conversion, \<^verbatim>\<open>fetch\<close>, \<^verbatim>\<open>resp.text()\<close>, \<^verbatim>\<open>resp.json()\<close>,
  a property read on \<^verbatim>\<open>null\<close>) throws an Error object, which has a name and a message.
\<close>

datatype js_error = JsError (err_name: string) (err_message: string)

text \<open>
  \<^verbatim>\<open>err.message || String(err)\<close>: the message when it is not empty; otherwise
  \<^verbatim>\<open>Error.prototype.toString\<close>, which for an empty message returns the name.
\<close>

definition error_text :: "js_error \<Rightarrow> string" where
  "error_text e = (if err_message e \<noteq> [] then err_message e else err_name e)"

subsection \<open>Truthiness and the operator \<^verbatim>\<open>||\<close>\<close>

fun truthy :: "json option \<Rightarrow> bool" where
  "truthy None = False"
| "truthy (Some JNull) = False"
| "truthy (Some (JBool b)) = b"
| "truthy (Some (JNum n)) = (\<not> is_zero n)"
| "truthy (Some (JStr s)) = (s \<noteq> [])"
| "truthy (Some (JArr xs)) = True"
| "truthy (Some (JObj kvs)) = True"

text \<open>\<^verbatim>\<open>a || d\<close> with a defined right operand \<open>d\<close>.\<close>

definition js_or :: "json option \<Rightarrow> json \<Rightarrow> json" where
  "js_or a d = (case a of Some v \<Rightarrow> (if truthy a then v else d) | None \<Rightarrow> d)"

subsection \<open>Property reads\<close>

text \<open>
  \<^verbatim>\<open>v.k\<close> for a value \<open>v\<close> that is not \<^verbatim>\<open>null\<close>, for the property names the handler reads
  (\<^verbatim>\<open>figmaUrl\<close>, \<^verbatim>\<open>brief\<close>, \<^verbatim>\<open>rules\<close>, \<^verbatim>\<open>model\<close>, \<^verbatim>\<open>detail\<close>, \<^verbatim>\<open>imageDataUrl\<close>, \<^verbatim>\<open>choices\<close>,
  \<^verbatim>\<open>message\<close>, \<^verbatim>\<open>content\<close>): none of them is a property of a prototype, so only an object
  can have one. The list of an object holds its own properties, one entry per key.
\<close>

fun get_prop :: "json \<Rightarrow> string \<Rightarrow> json option" where
  "get_prop (JObj kvs) k = map_of kvs k"
| "get_prop v k = None"

text \<open>\<^verbatim>\<open>v[0]\<close> for a value that is neither \<^verbatim>\<open>null\<close> nor \<^verbatim>\<open>undefined\<close>.\<close>

fun index0 :: "json \<Rightarrow> json option" where
  "index0 (JArr xs) = (case xs of [] \<Rightarrow> None | x # rest \<Rightarrow> Some x)"
| "index0 (JStr s) = (case s of [] \<Rightarrow> None | c # rest \<Rightarrow> Some (JStr [c]))"
| "index0 (JObj kvs) = map_of kvs ''0''"
| "index0 v = None"

text \<open>One link \<^verbatim>\<open>?.\<close> of an optional chain: \<^verbatim>\<open>null\<close> and \<^verbatim>\<open>undefined\<close> end the chain.\<close>

definition opt_chain :: "json option \<Rightarrow> (json \<Rightarrow> json option) \<Rightarrow> json option" where
  "opt_chain v f = (case v of None \<Rightarrow> None | Some JNull \<Rightarrow> None | Some x \<Rightarrow> f x)"

subsection \<open>String conversion\<close>

text \<open>
  \<^verbatim>\<open>String(v)\<close>, as a template literal and the \<^verbatim>\<open>Response\<close> constructor apply it. An array
  joins its elements with commas, \<^verbatim>\<open>null\<close> elements as the empty string. A parsed object
  converts through \<^verbatim>\<open>Object.prototype.toString\<close> unless it has an own property
  \<^verbatim>\<open>toString\<close>: that is never callable, \<^verbatim>\<open>valueOf\<close> yields no primitive either, and the
  conversion throws the TypeError \<open>te\<close> of the engine.
\<close>

fun to_string :: "js_error \<Rightarrow> json \<Rightarrow> js_error + string"
  and join_elems :: "js_error \<Rightarrow> json list \<Rightarrow> js_error + string" where
  "to_string te JNull = Inr ''null''"
| "to_string te (JBool b) = Inr (if b then ''true'' else ''false'')"
| "to_string te (JNum n) = Inr (number_text n)"
| "to_string te (JStr s) = Inr s"
| "to_string te (JArr xs) = join_elems te xs"
| "to_string te (JObj kvs) =
     (if map_of kvs ''toString'' \<noteq> None then Inl te else Inr ''[object Object]'')"
| "join_elems te [] = Inr []"
| "join_elems te (x # xs) =
     (case (if x = JNull then Inr [] else to_string te x) of
        Inl e \<Rightarrow> Inl e
      | Inr s \<Rightarrow>
          (if xs = [] then Inr s
           else (case join_elems te xs of
                   Inl e \<Rightarrow> Inl e
                 | Inr r \<Rightarrow> Inr (s @ '','' @ r))))"

section \<open>The world around the handler\<close>

record request =
  req_method :: string
  req_json :: "js_error + json"

record outbound_request =
  url :: string
  http_method :: string
  http_headers :: "(string \<times> string) list"
  payload :: json

record upstream_response =
  ok :: bool
  text_result :: "js_error + string"
  json_result :: "js_error + json"

record response =
  status :: nat
  body :: string
  headers :: "(string \<times> string) list"

text \<open>
  The runtime: the environment variable \<^verbatim>\<open>OPENAI_API_KEY\<close> (\<open>None\<close> when unset), what
  \<^verbatim>\<open>fetch\<close> does with an outbound request (it rejects or resolves to a response), and the
  TypeErrors of the engine for destructuring \<^verbatim>\<open>null\<close>, for reading a property of \<^verbatim>\<open>null\<close>
  and for an object without a primitive value.
\<close>

record runtime =
  api_key :: "string option"
  fetch :: "outbound_request \<Rightarrow> js_error + upstream_response"
  destructure_error :: js_error
  property_error :: js_error
  primitive_error :: js_error

section \<open>The schema sent as output constraint\<close>

text \<open>
  The three files of the repository differ in \<^verbatim>\<open>schema()\<close> only. Each result is written
  as the source writes it, key by key. \<open>of_type t\<close> is \<^verbatim>\<open>{ type: t }\<close>, \<open>array_of s\<close> is
  \<^verbatim>\<open>{ type: "array", items: s }\<close> and \<open>names\<close> is an array literal of strings.
\<close>

abbreviation of_type :: "string \<Rightarrow> json" where
  "of_type t \<equiv> JObj [(''type'', JStr t)]"

abbreviation array_of :: "json \<Rightarrow> json" where
  "array_of s \<equiv> JObj [(''type'', JStr ''array''), (''items'', s)]"

abbreviation names :: "string list \<Rightarrow> json" where
  "names ks \<equiv> JArr (map JStr ks)"

text \<open>\<^verbatim>\<open>src/api/generate.js\<close>: the permissive variant.\<close>

definition schema :: json where
  "schema =
   JObj [
    (''name'', JStr ''RequirementsBundle''),
    (''strict'', JBool True),
    (''schema'', JObj [
      (''type'', JStr ''object''),
      (''additionalProperties'', JBool False),
      (''properties'', JObj [
        (''userStories'', JObj [
          (''type'', JStr ''array''),
          (''items'', JObj [
            (''type'', JStr ''object''),
            (''required'', names [''id'', ''as_a'', ''i_want'', ''so_that'', ''acceptance_criteria'']),
            (''additionalProperties'', JBool True),
            (''properties'', JObj [
              (''id'', of_type ''string''),
              (''as_a'', of_type ''string''),
              (''i_want'', of_type ''string''),
              (''so_that'', of_type ''string''),
              (''acceptance_criteria'', array_of (of_type ''string'')),
              (''trace'', of_type ''object'')])])]),
        (''declarativeStories'', JObj [
          (''type'', JStr ''array''),
          (''items'', JObj [
            (''type'', JStr ''object''),
            (''required'', names [''title'', ''scenarios'']),
            (''properties'', JObj [
              (''title'', of_type ''string''),
              (''scenarios'', JObj [(''type'', JStr ''array''), (''items'', JObj [
                (''type'', JStr ''object''),
                (''required'', names [''given'', ''when'', ''then'']),
                (''properties'', JObj [
                  (''given'', of_type ''string''),
                  (''when'', of_type ''string''),
                  (''then'', of_type ''string''),
                  (''examples'', array_of (of_type ''object''))])])])])])]),
        (''imperativeTests'', JObj [
          (''type'', JStr ''array''),
          (''items'', JObj [
            (''type'', JStr ''object''),
            (''required'', names [''name'', ''gherkin'', ''tags'']),
            (''properties'', JObj [
              (''name'', of_type ''string''),
              (''tags'', array_of (of_type ''string'')),
              (''gherkin'', of_type ''string''),
              (''selectors'', of_type ''object'')])])]),
        (''uiDataModel'', JObj [
          (''type'', JStr ''object''),
          (''properties'', JObj [
            (''entities'', JObj [(''type'', JStr ''array''), (''items'', JObj [
              (''type'', JStr ''object''),
              (''required'', names [''name'', ''fields'']),
              (''properties'', JObj [
                (''name'', of_type ''string''),
                (''fields'', JObj [(''type'', JStr ''array''), (''items'', JObj [
                  (''type'', JStr ''object''),
                  (''required'', names [''name'', ''type'']),
                  (''properties'', JObj [
                    (''name'', of_type ''string''),
                    (''type'', of_type ''string''),
                    (''required'', of_type ''boolean''),
                    (''constraints'', of_type ''object''),
                    (''enum'', array_of (of_type ''string''))])])]),
                (''relations'', array_of (of_type ''object''))])])]),
            (''jsonSchemas'', of_type ''object''),
            (''sqlDDL'', of_type ''string'')])]),
        (''validationReport'', JObj [
          (''type'', JStr ''object''),
          (''properties'', JObj [
            (''coverage'', of_type ''object''),
            (''conflicts'', array_of (of_type ''string'')),
            (''ambiguities'', array_of (of_type ''string'')),
            (''missing'', array_of (of_type ''string'')),
            (''notes'', array_of (of_type ''string''))])])]),
      (''required'', names [''userStories'', ''declarativeStories'', ''imperativeTests'',
                            ''uiDataModel'', ''validationReport''])])]"

text \<open>\<^verbatim>\<open>src/unnamed/part_000\<close>: the strict variant without the free-form fields.\<close>

definition schema_part_000 :: json where
  "schema_part_000 =
   JObj [
    (''name'', JStr ''RequirementsBundle''),
    (''strict'', JBool True),
    (''schema'', JObj [
      (''type'', JStr ''object''),
      (''additionalProperties'', JBool False),
      (''required'', names [''userStories'', ''declarativeStories'', ''imperativeTests'',
                            ''uiDataModel'', ''validationReport'']),
      (''properties'', JObj [
        (''userStories'', JObj [
          (''type'', JStr ''array''),
          (''items'', JObj [
            (''type'', JStr ''object''),
            (''additionalProperties'', JBool False),
            (''required'', names [''id'', ''as_a'', ''i_want'', ''so_that'', ''acceptance_criteria'']),
            (''properties'', JObj [
              (''id'', of_type ''string''),
              (''as_a'', of_type ''string''),
              (''i_want'', of_type ''string''),
              (''so_that'', of_type ''string''),
              (''acceptance_criteria'', array_of (of_type ''string''))])])]),
        (''declarativeStories'', JObj [
          (''type'', JStr ''array''),
          (''items'', JObj [
            (''type'', JStr ''object''),
            (''additionalProperties'', JBool False),
            (''required'', names [''title'', ''scenarios'']),
            (''properties'', JObj [
              (''title'', of_type ''string''),
              (''scenarios'', JObj [
                (''type'', JStr ''array''),
                (''items'', JObj [
                  (''type'', JStr ''object''),
                  (''additionalProperties'', JBool False),
                  (''required'', names [''given'', ''when'', ''then'']),
                  (''properties'', JObj [
                    (''given'', of_type ''string''),
                    (''when'', of_type ''string''),
                    (''then'', of_type ''string'')])])])])])]),
        (''imperativeTests'', JObj [
          (''type'', JStr ''array''),
          (''items'', JObj [
            (''type'', JStr ''object''),
            (''additionalProperties'', JBool False),
            (''required'', names [''name'', ''gherkin'', ''tags'']),
            (''properties'', JObj [
              (''name'', of_type ''string''),
              (''gherkin'', of_type ''string''),
              (''tags'', array_of (of_type ''string''))])])]),
        (''uiDataModel'', JObj [
          (''type'', JStr ''object''),
          (''additionalProperties'', JBool False),
          (''required'', names [''entities'']),
          (''properties'', JObj [
            (''entities'', JObj [
              (''type'', JStr ''array''),
              (''items'', JObj [
                (''type'', JStr ''object''),
                (''additionalProperties'', JBool False),
                (''required'', names [''name'', ''fields'']),
                (''properties'', JObj [
                  (''name'', of_type ''string''),
                  (''fields'', JObj [
                    (''type'', JStr ''array''),
                    (''items'', JObj [
                      (''type'', JStr ''object''),
                      (''additionalProperties'', JBool False),
                      (''required'', names [''name'', ''type'']),
                      (''properties'', JObj [
                        (''name'', of_type ''string''),
                        (''type'', of_type ''string''),
                        (''required'', of_type ''boolean'')])])])])])])])]),
        (''validationReport'', JObj [
          (''type'', JStr ''object''),
          (''additionalProperties'', JBool False),
          (''properties'', JObj [
            (''coverage'', JObj [
              (''type'', JStr ''object''),
              (''additionalProperties'', JBool False),
              (''properties'', JObj [
                (''uiComponentsCoveredPct'', of_type ''number''),
                (''fieldsWithTestsPct'', of_type ''number'')])]),
            (''conflicts'', array_of (of_type ''string'')),
            (''ambiguities'', array_of (of_type ''string'')),
            (''missing'', array_of (of_type ''string'')),
            (''notes'', array_of (of_type ''string''))])])])])]"

text \<open>\<^verbatim>\<open>src/unnamed/part_001\<close>: the fully strict variant.\<close>

definition schema_part_001 :: json where
  "schema_part_001 =
   JObj [
    (''name'', JStr ''RequirementsBundle''),
    (''strict'', JBool True),
    (''schema'', JObj [
      (''type'', JStr ''object''),
      (''additionalProperties'', JBool False),
      (''properties'', JObj [
        (''userStories'', JObj [
          (''type'', JStr ''array''),
          (''items'', JObj [
            (''type'', JStr ''object''),
            (''additionalProperties'', JBool False),
            (''required'', names [''id'', ''as_a'', ''i_want'', ''so_that'', ''acceptance_criteria'']),
            (''properties'', JObj [
              (''id'', of_type ''string''),
              (''as_a'', of_type ''string''),
              (''i_want'', of_type ''string''),
              (''so_that'', of_type ''string''),
              (''acceptance_criteria'', array_of (of_type ''string'')),
              (''trace'', JObj [
                (''type'', JStr ''object''),
                (''additionalProperties'', JBool False),
                (''properties'', JObj [
                  (''ui_nodes'', array_of (of_type ''string'')),
                  (''entities'', array_of (of_type ''string''))])])])])]),
        (''declarativeStories'', JObj [
          (''type'', JStr ''array''),
          (''items'', JObj [
            (''type'', JStr ''object''),
            (''additionalProperties'', JBool False),
            (''required'', names [''title'', ''scenarios'']),
            (''properties'', JObj [
              (''title'', of_type ''string''),
              (''scenarios'', JObj [
                (''type'', JStr ''array''),
                (''items'', JObj [
                  (''type'', JStr ''object''),
                  (''additionalProperties'', JBool False),
                  (''required'', names [''given'', ''when'', ''then'']),
                  (''properties'', JObj [
                    (''given'', of_type ''string''),
                    (''when'', of_type ''string''),
                    (''then'', of_type ''string''),
                    (''examples'', JObj [
                      (''type'', JStr ''array''),
                      (''items'', JObj [
                        (''type'', JStr ''object''),
                        (''additionalProperties'', JBool False),
                        (''properties'', JObj [])])])])])])])])]),
        (''imperativeTests'', JObj [
          (''type'', JStr ''array''),
          (''items'', JObj [
            (''type'', JStr ''object''),
            (''additionalProperties'', JBool False),
            (''required'', names [''name'', ''gherkin'', ''tags'']),
            (''properties'', JObj [
              (''name'', of_type ''string''),
              (''tags'', array_of (of_type ''string'')),
              (''gherkin'', of_type ''string''),
              (''selectors'', JObj [
                (''type'', JStr ''object''),
                (''additionalProperties'', JBool False),
                (''properties'', JObj [])])])])]),
        (''uiDataModel'', JObj [
          (''type'', JStr ''object''),
          (''additionalProperties'', JBool False),
          (''properties'', JObj [
            (''entities'', JObj [
              (''type'', JStr ''array''),
              (''items'', JObj [
                (''type'', JStr ''object''),
                (''additionalProperties'', JBool False),
                (''required'', names [''name'', ''fields'']),
                (''properties'', JObj [
                  (''name'', of_type ''string''),
                  (''fields'', JObj [
                    (''type'', JStr ''array''),
                    (''items'', JObj [
                      (''type'', JStr ''object''),
                      (''additionalProperties'', JBool False),
                      (''required'', names [''name'', ''type'']),
                      (''properties'', JObj [
                        (''name'', of_type ''string''),
                        (''type'', of_type ''string''),
                        (''required'', of_type ''boolean''),
                        (''constraints'', JObj [
                          (''type'', JStr ''object''),
                          (''additionalProperties'', JBool False),
                          (''properties'', JObj [
                            (''minLength'', of_type ''number''),
                            (''maxLength'', of_type ''number''),
                            (''pattern'', of_type ''string''),
                            (''minimum'', of_type ''number''),
                            (''maximum'', of_type ''number'')])]),
                        (''enum'', array_of (of_type ''string''))])])]),
                  (''relations'', JObj [
                    (''type'', JStr ''array''),
                    (''items'', JObj [
                      (''type'', JStr ''object''),
                      (''additionalProperties'', JBool False),
                      (''properties'', JObj [
                        (''type'', of_type ''string''),
                        (''target'', of_type ''string''),
                        (''on'', of_type ''string'')])])])])])]),
            (''jsonSchemas'', JObj [
              (''type'', JStr ''object''),
              (''additionalProperties'', JBool False),
              (''properties'', JObj [])]),
            (''sqlDDL'', of_type ''string'')])]),
        (''validationReport'', JObj [
          (''type'', JStr ''object''),
          (''additionalProperties'', JBool False),
          (''properties'', JObj [
            (''coverage'', JObj [
              (''type'', JStr ''object''),
              (''additionalProperties'', JBool False),
              (''properties'', JObj [
                (''uiComponentsCoveredPct'', of_type ''number''),
                (''fieldsWithTestsPct'', of_type ''number'')])]),
            (''conflicts'', array_of (of_type ''string'')),
            (''ambiguities'', array_of (of_type ''string'')),
            (''missing'', array_of (of_type ''string'')),
            (''notes'', array_of (of_type ''string''))])])]),
      (''required'', names [''userStories'', ''declarativeStories'', ''imperativeTests'',
                            ''uiDataModel'', ''validationReport''])])]"

section \<open>The handler\<close>

subsection \<open>Destructuring the request body\<close>

text \<open>
  \<^verbatim>\<open>const { figmaUrl, brief, rules, model, detail, imageDataUrl } = await req.json();\<close>
  throws on \<^verbatim>\<open>null\<close>; on every other value it reads the six properties, \<^verbatim>\<open>undefined\<close>
  where the value has none.
\<close>

record body_fields =
  figmaUrl :: "json option"
  brief :: "json option"
  rules :: "json option"
  model :: "json option"
  detail :: "json option"
  imageDataUrl :: "json option"

definition destructure :: "runtime \<Rightarrow> json \<Rightarrow> js_error + body_fields" where
  "destructure rt v =
     (if v = JNull then Inl (destructure_error rt)
      else Inr \<lparr>figmaUrl = get_prop v ''figmaUrl'', brief = get_prop v ''brief'',
                rules = get_prop v ''rules'', model = get_prop v ''model'',
                detail = get_prop v ''detail'', imageDataUrl = get_prop v ''imageDataUrl''\<rparr>)"

subsection \<open>The two messages\<close>

definition system_content :: string where
  \<open>system_content =
     ''You are a Product Requirements generator.\<newline>'' @
     ''Return STRICT JSON ONLY (no prose) that conforms to the provided JSON Schema.\<newline>'' @
     ''Inputs you may use: Figma URL, uploaded image, product brief, and validation rules.\<newline>'' @
     ''Goals:\<newline>'' @
     ''1) User Stories with SMART acceptance criteria (success, error, empty, permission).\<newline>'' @
     ''2) Declarative stories (rule-focused Gherkin; scenario outlines with examples where useful).\<newline>'' @
     ''3) Imperative test cases (Given/When/Then; selectors/testIds where possible).\<newline>'' @
     ''4) UI Data Model (entities, fields, constraints, relations, JSON Schemas, optional SQL DDL).\<newline>'' @
     ''5) Validation Report (coverage, conflicts, ambiguities, missing).\<newline>'' @
     ''Honor the rules strictly. If a detail is genuinely unknown, use "TBD" and flag it in validationReport.''\<close>

text \<open>
  The template literal of the user message. The four interpolations are converted to
  strings from left to right (\<^verbatim>\<open>figmaUrl\<close>, \<^verbatim>\<open>brief\<close>, \<^verbatim>\<open>detail\<close>, \<^verbatim>\<open>rules\<close>); the first
  conversion that throws ends the evaluation.
\<close>

definition user_text :: "runtime \<Rightarrow> body_fields \<Rightarrow> js_error + string" where
  "user_text rt f =
     (case to_string (primitive_error rt) (js_or (figmaUrl f) (JStr ''N/A'')) of
        Inl e \<Rightarrow> Inl e
      | Inr s1 \<Rightarrow>
     (case to_string (primitive_error rt) (js_or (brief f) (JStr ''N/A'')) of
        Inl e \<Rightarrow> Inl e
      | Inr s2 \<Rightarrow>
     (case to_string (primitive_error rt) (js_or (detail f) (JStr ''standard'')) of
        Inl e \<Rightarrow> Inl e
      | Inr s3 \<Rightarrow>
     (case to_string (primitive_error rt) (js_or (rules f) (JStr [])) of
        Inl e \<Rightarrow> Inl e
      | Inr s4 \<Rightarrow>
          Inr (''FIGMA: '' @ s1 @ ''\<newline>BRIEF: '' @ s2 @ ''\<newline>DETAIL: '' @ s3 @
               ''\<newline>RULES (YAML or text):\<newline>'' @ s4 @
               ''\<newline>\<newline>Please infer intents from UI labels and flows if present. '' @
               ''Produce comprehensive but concise artifacts.\<newline>'' @
               ''Link stories/tests/model via trace where obvious.'')))))"

text \<open>
  \<^verbatim>\<open>if (imageDataUrl) { messages[1].content.push({ type: "image_url", image_url: { url: imageDataUrl } }); }\<close>:
  the parts pushed onto the content of the user message.
\<close>

definition image_parts :: "body_fields \<Rightarrow> json list" where
  "image_parts f =
     (case imageDataUrl f of
        None \<Rightarrow> []
      | Some u \<Rightarrow>
          (if truthy (Some u)
           then [JObj [(''type'', JStr ''image_url''), (''image_url'', JObj [(''url'', u)])]]
           else []))"

definition build_messages :: "runtime \<Rightarrow> body_fields \<Rightarrow> js_error + json" where
  "build_messages rt f =
     (case user_text rt f of
        Inl e \<Rightarrow> Inl e
      | Inr t \<Rightarrow>
          Inr (JArr
            [JObj [(''role'', JStr ''system''), (''content'', JStr system_content)],
             JObj [(''role'', JStr ''user''),
                   (''content'', JArr ([JObj [(''type'', JStr ''text''), (''text'', JStr t)]]
                                      @ image_parts f))]]))"

subsection \<open>The outbound request\<close>

text \<open>
  The value given to \<^verbatim>\<open>JSON.stringify\<close> is kept as the payload; \<open>sch\<close> is the result of
  \<^verbatim>\<open>schema()\<close>. An unset \<^verbatim>\<open>OPENAI_API_KEY\<close> is interpolated as \<^verbatim>\<open>undefined\<close>.
\<close>

definition request_body :: "json \<Rightarrow> body_fields \<Rightarrow> json \<Rightarrow> json" where
  "request_body sch f messages =
     JObj [(''model'', js_or (model f) (JStr ''gpt-5'')),
           (''messages'', messages),
           (''response_format'',
              JObj [(''type'', JStr ''json_schema''), (''json_schema'', sch)])]"

definition outbound :: "runtime \<Rightarrow> json \<Rightarrow> outbound_request" where
  "outbound rt b =
     \<lparr>url = ''https://api.openai.com/v1/chat/completions'',
      http_method = ''POST'',
      http_headers =
        [(''Authorization'',
            ''Bearer '' @ (case api_key rt of None \<Rightarrow> ''undefined'' | Some k \<Rightarrow> k)),
         (''Content-Type'', ''application/json'')],
      payload = b\<rparr>"

subsection \<open>Reading the completion\<close>

text \<open>
  \<^verbatim>\<open>data.choices?.[0]?.message?.content\<close>: the first read is not optional and throws on
  \<^verbatim>\<open>null\<close>.
\<close>

definition first_choice_content :: "runtime \<Rightarrow> json \<Rightarrow> js_error + json option" where
  "first_choice_content rt data =
     (if data = JNull then Inl (property_error rt)
      else Inr (opt_chain
                 (opt_chain
                   (opt_chain (get_prop data ''choices'') index0)
                   (\<lambda>c. get_prop c ''message''))
                 (\<lambda>m. get_prop m ''content'')))"

text \<open>
  What follows a resolved \<^verbatim>\<open>fetch\<close>: the error relay when \<^verbatim>\<open>resp.ok\<close> is false, the
  content relay otherwise. \<open>Inl\<close> is a thrown error. The headers of a response are the
  ones the handler passes to the constructor.
\<close>

definition relay :: "runtime \<Rightarrow> upstream_response \<Rightarrow> js_error + response" where
  "relay rt resp =
     (if \<not> ok resp then
        (case text_result resp of
           Inl e \<Rightarrow> Inl e
         | Inr t \<Rightarrow> Inr \<lparr>status = 500, body = ''OpenAI error: '' @ t, headers = []\<rparr>)
      else
        (case json_result resp of
           Inl e \<Rightarrow> Inl e
         | Inr data \<Rightarrow>
        (case first_choice_content rt data of
           Inl e \<Rightarrow> Inl e
         | Inr c \<Rightarrow>
        (case to_string (primitive_error rt) (js_or c (JStr ''{}'')) of
           Inl e \<Rightarrow> Inl e
         | Inr s \<Rightarrow>
             Inr \<lparr>status = 200, body = s,
                  headers = [(''Content-Type'', ''application/json'')]\<rparr>))))"

subsection \<open>The try block and the catch\<close>

text \<open>
  The body of \<^verbatim>\<open>try\<close>. The result is the response returned or the error thrown, with
  the list of the outbound requests handed to \<^verbatim>\<open>fetch\<close>, in order.
\<close>

definition handler_try ::
  "json \<Rightarrow> runtime \<Rightarrow> request \<Rightarrow> (js_error + response) \<times> outbound_request list" where
  "handler_try sch rt req =
     (if req_method req \<noteq> ''POST'' then
        (Inr \<lparr>status = 405, body = ''Method Not Allowed'', headers = []\<rparr>, [])
      else
        (case req_json req of
           Inl e \<Rightarrow> (Inl e, [])
         | Inr v \<Rightarrow>
        (case destructure rt v of
           Inl e \<Rightarrow> (Inl e, [])
         | Inr f \<Rightarrow>
        (case build_messages rt f of
           Inl e \<Rightarrow> (Inl e, [])
         | Inr messages \<Rightarrow>
             (let call = outbound rt (request_body sch f messages) in
              (case fetch rt call of
                 Inl e \<Rightarrow> (Inl e, [call])
               | Inr resp \<Rightarrow> (relay rt resp, [call])))))))"

text \<open>
  \<^verbatim>\<open>catch (err) { return new Response(`Server error: ${err.message || String(err)}`, { status: 500 }); }\<close>
\<close>

definition handler_with ::
  "json \<Rightarrow> runtime \<Rightarrow> request \<Rightarrow> response \<times> outbound_request list" where
  "handler_with sch rt req =
     (case handler_try sch rt req of
        (Inr r, calls) \<Rightarrow> (r, calls)
      | (Inl err, calls) \<Rightarrow>
          (\<lparr>status = 500, body = ''Server error: '' @ error_text err, headers = []\<rparr>, calls))"

text \<open>The handler of each file: the same text around its own \<^verbatim>\<open>schema()\<close>.\<close>

definition handler :: "runtime \<Rightarrow> request \<Rightarrow> response \<times> outbound_request list" where
  "handler = handler_with schema"

definition handler_part_000 :: "runtime \<Rightarrow> request \<Rightarrow> response \<times> outbound_request list" where
  "handler_part_000 = handler_with schema_part_000"

definition handler_part_001 :: "runtime \<Rightarrow> request \<Rightarrow> response \<times> outbound_request list" where
  "handler_part_001 = handler_with schema_part_001"

subsection \<open>The catch block on any thrown value\<close>

text \<open>
  JavaScript can throw any value. \<open>ErrorObj\<close> is an Error object, \<open>Plain\<close> any other value
  (\<open>None\<close> for \<^verbatim>\<open>undefined\<close>).
\<close>

datatype thrown = ErrorObj js_error | Plain "json option"

text \<open>
  The catch block, evaluated on a thrown value; \<open>Inl\<close> is an error that the block itself
  throws and that leaves the handler. Reading \<^verbatim>\<open>err.message\<close> throws on \<^verbatim>\<open>null\<close> and
  \<^verbatim>\<open>undefined\<close>; the template literal converts a truthy message to a string, and
  \<^verbatim>\<open>String(err)\<close> converts the value itself otherwise.
\<close>

definition catch_block :: "runtime \<Rightarrow> thrown \<Rightarrow> js_error + response" where
  "catch_block rt t =
     (case t of
        ErrorObj e \<Rightarrow>
          Inr \<lparr>status = 500, body = ''Server error: '' @ error_text e, headers = []\<rparr>
      | Plain None \<Rightarrow> Inl (property_error rt)
      | Plain (Some v) \<Rightarrow>
          (if v = JNull then Inl (property_error rt)
           else
             (case (case get_prop v ''message'' of
                      None \<Rightarrow> to_string (primitive_error rt) v
                    | Some m \<Rightarrow>
                        (if truthy (Some m) then to_string (primitive_error rt) m
                         else to_string (primitive_error rt) v)) of
                Inl e \<Rightarrow> Inl e
              | Inr s \<Rightarrow> Inr \<lparr>status = 500, body = ''Server error: '' @ s, headers = []\<rparr>)))"

text \<open>
  The try statement as a whole. The result is a response, or an error that escapes the
  handler. The try block throws Error objects only: the rejections of \<^verbatim>\<open>req.json()\<close>,
  \<^verbatim>\<open>fetch\<close>, \<^verbatim>\<open>resp.text()\<close> and \<^verbatim>\<open>resp.json()\<close> and the TypeErrors of the engine.
\<close>

definition handler_outcome ::
  "json \<Rightarrow> runtime \<Rightarrow> request \<Rightarrow> (js_error + response) \<times> outbound_request list" where
  "handler_outcome sch rt req =
     (case handler_try sch rt req of
        (Inr r, calls) \<Rightarrow> (Inr r, calls)
      | (Inl err, calls) \<Rightarrow> (catch_block rt (ErrorObj err), calls))"

section \<open>Observations of a run\<close>

text \<open>A POST request whose body parses to \<open>v\<close>.\<close>

definition post :: "json \<Rightarrow> request" where
  "post v = \<lparr>req_method = ''POST'', req_json = Inr v\<rparr>"

text \<open>The content parts of the second message of an outbound payload.\<close>

definition user_content :: "json \<Rightarrow> json list" where
  "user_content p =
     (case get_prop p ''messages'' of
        Some (JArr [s, u]) \<Rightarrow>
          (case get_prop u ''content'' of Some (JArr parts) \<Rightarrow> parts | _ \<Rightarrow> [])
      | _ \<Rightarrow> [])"

definition is_image_part :: "json \<Rightarrow> bool" where
  "is_image_part part = (get_prop part ''type'' = Some (JStr ''image_url''))"

text \<open>The schema an outbound payload carries under \<^verbatim>\<open>response_format.json_schema\<close>.\<close>

definition sent_schema :: "json \<Rightarrow> json option" where
  "sent_schema p = opt_chain (get_prop p ''response_format'') (\<lambda>r. get_prop r ''json_schema'')"

text \<open>The response of the catch block for a thrown error.\<close>

definition server_error :: "js_error \<Rightarrow> response" where
  "server_error e = \<lparr>status = 500, body = ''Server error: '' @ error_text e, headers = []\<rparr>"

subsection \<open>Concrete runtimes and upstream responses\<close>

text \<open>A runtime whose \<^verbatim>\<open>fetch\<close> settles every request with \<open>up\<close>.\<close>

definition example_runtime :: "(js_error + upstream_response) \<Rightarrow> runtime" where
  "example_runtime up =
     \<lparr>api_key = Some ''sk-test'',
      fetch = (\<lambda>c. up),
      destructure_error = JsError ''TypeError'' ''Cannot destructure property of null'',
      property_error = JsError ''TypeError'' ''Cannot read properties of null'',
      primitive_error = JsError ''TypeError'' ''Cannot convert object to primitive value''\<rparr>"

text \<open>A success response whose body is the JSON document \<open>data\<close>.\<close>

definition completion :: "json \<Rightarrow> upstream_response" where
  "completion data =
     \<lparr>ok = True, text_result = Inr ''unread'', json_result = Inr data\<rparr>"

text \<open>The usual document of the completion service around a message content.\<close>

definition with_content :: "json \<Rightarrow> json" where
  "with_content c = JObj [(''choices'', JArr [JObj [(''message'', JObj [(''content'', c)])]])]"

text \<open>A success status over a body that is not JSON: \<^verbatim>\<open>resp.json()\<close> rejects.\<close>

definition unparsable :: upstream_response where
  "unparsable =
     \<lparr>ok = True, text_result = Inr ''<html>'',
      json_result = Inl (JsError ''SyntaxError'' ''Unexpected token'')\<rparr>"

text \<open>A failure status with the error text \<open>t\<close>.\<close>

definition rejected :: "string \<Rightarrow> upstream_response" where
  "rejected t =
     \<lparr>ok = False, text_result = Inr t,
      json_result = Inl (JsError ''SyntaxError'' ''Unexpected token'')\<rparr>"

text \<open>
  A POST request with a body of zero bytes: \<^verbatim>\<open>req.json()\<close> rejects with the SyntaxError of
  parsing the empty text.
\<close>

definition zero_byte_post :: request where
  "zero_byte_post =
     \<lparr>req_method = ''POST'',
      req_json = Inl (JsError ''SyntaxError'' ''Unexpected end of JSON input'')\<rparr>"

text \<open>A POST body whose \<^verbatim>\<open>figmaUrl\<close> is an object that has no string conversion.\<close>

definition unconvertible_post :: request where
  "unconvertible_post = post (JObj [(''figmaUrl'', JObj [(''toString'', JNull)])])"

text \<open>An error with an empty message, as an aborted \<^verbatim>\<open>fetch\<close> may reject with.\<close>

definition aborted :: js_error where
  "aborted = JsError ''AbortError'' []"

section \<open>The documented shape of the schema\<close>

text \<open>
  Section 3 of the specification describes the schema by field names, nesting and
  optional marks. A \<open>shape\<close> is such a description: a field of undescribed content, a
  string, a sequence, or an object with named fields, each marked required or optional.
\<close>

datatype shape = Any | Str | Seq shape | Rec "(string \<times> bool \<times> shape) list"

definition type_is :: "json \<Rightarrow> string \<Rightarrow> bool" where
  "type_is s t = (get_prop s ''type'' = Some (JStr t))"

definition properties_of :: "json \<Rightarrow> (string \<times> json) list" where
  "properties_of s = (case get_prop s ''properties'' of Some (JObj kvs) \<Rightarrow> kvs | _ \<Rightarrow> [])"

definition required_of :: "json \<Rightarrow> json list" where
  "required_of s = (case get_prop s ''required'' of Some (JArr ks) \<Rightarrow> ks | _ \<Rightarrow> [])"

definition same_members :: "'a list \<Rightarrow> 'a list \<Rightarrow> bool" where
  "same_members xs ys =
     (list_all (\<lambda>x. x \<in> set ys) xs \<and> list_all (\<lambda>y. y \<in> set xs) ys)"

text \<open>
  A JSON Schema has a shape when an object declares exactly the named fields, each
  declared field has the shape of its description, and a sequence is an array whose items
  have the shape described. With \<open>rq\<close> the required list of every object must also hold
  exactly the fields marked required; without it only names and nesting are compared.
\<close>

fun conforms :: "bool \<Rightarrow> shape \<Rightarrow> json \<Rightarrow> bool"
  and conforms_fields :: "bool \<Rightarrow> (string \<times> bool \<times> shape) list \<Rightarrow> json \<Rightarrow> bool" where
  "conforms rq Any s = True"
| "conforms rq Str s = type_is s ''string''"
| "conforms rq (Seq sh) s =
     (type_is s ''array'' \<and>
      (case get_prop s ''items'' of Some it \<Rightarrow> conforms rq sh it | None \<Rightarrow> False))"
| "conforms rq (Rec fs) s =
     (type_is s ''object'' \<and>
      same_members (map fst (properties_of s)) (map fst fs) \<and>
      (if rq
       then same_members (required_of s)
              (map (\<lambda>f. JStr (fst f)) (filter (\<lambda>f. fst (snd f)) fs))
       else True) \<and>
      conforms_fields rq fs s)"
| "conforms_fields rq [] s = True"
| "conforms_fields rq (f # fs) s =
     ((case map_of (properties_of s) (fst f) of
         Some v \<Rightarrow> conforms rq (snd (snd f)) v
       | None \<Rightarrow> False) \<and>
      conforms_fields rq fs s)"

text \<open>
  The shape of section 3, following its words, with three places left open: the shape of
  \<^verbatim>\<open>trace\<close>, the shape of \<^verbatim>\<open>coverage\<close>, and whether \<^verbatim>\<open>entities\<close> is required in
  \<^verbatim>\<open>uiDataModel\<close>. A field the specification marks with \<^verbatim>\<open>?\<close> is optional, every other
  one is required.
\<close>

definition bundle_shape :: "shape \<Rightarrow> shape \<Rightarrow> bool \<Rightarrow> shape" where
  "bundle_shape trace coverage entities_required =
   Rec [
    (''userStories'', True, Seq (Rec [
       (''id'', True, Any), (''as_a'', True, Any), (''i_want'', True, Any),
       (''so_that'', True, Any), (''acceptance_criteria'', True, Seq Str),
       (''trace'', False, trace)])),
    (''declarativeStories'', True, Seq (Rec [
       (''title'', True, Any),
       (''scenarios'', True, Seq (Rec [
          (''given'', True, Any), (''when'', True, Any), (''then'', True, Any),
          (''examples'', False, Any)]))])),
    (''imperativeTests'', True, Seq (Rec [
       (''name'', True, Any), (''gherkin'', True, Any), (''tags'', True, Seq Str),
       (''selectors'', False, Any)])),
    (''uiDataModel'', True, Rec [
       (''entities'', entities_required, Seq (Rec [
          (''name'', True, Any),
          (''fields'', True, Seq (Rec [
             (''name'', True, Any), (''type'', True, Any), (''required'', False, Any),
             (''constraints'', False, Any), (''enum'', False, Any)])),
          (''relations'', False, Any)])),
       (''jsonSchemas'', False, Any),
       (''sqlDDL'', False, Any)]),
    (''validationReport'', True, Rec [
       (''coverage'', False, coverage),
       (''conflicts'', False, Any), (''ambiguities'', False, Any), (''missing'', False, Any),
       (''notes'', False, Seq Str)])]"

text \<open>
  The shape as documented: \<^verbatim>\<open>trace?: {ui_nodes, entities}\<close>,
  \<^verbatim>\<open>coverage?: {uiComponentsCoveredPct, fieldsWithTestsPct}\<close> and \<^verbatim>\<open>entities\<close> without
  the optional mark.
\<close>

definition documented_shape :: shape where
  "documented_shape =
     bundle_shape
       (Rec [(''ui_nodes'', True, Any), (''entities'', True, Any)])
       (Rec [(''uiComponentsCoveredPct'', True, Any), (''fieldsWithTestsPct'', True, Any)])
       True"

text \<open>The schema proper inside the value of \<^verbatim>\<open>schema()\<close>, under its key \<^verbatim>\<open>schema\<close>.\<close>

definition root_of :: "json \<Rightarrow> json" where
  "root_of j = (case get_prop j ''schema'' of Some s \<Rightarrow> s | None \<Rightarrow> JNull)"

text \<open>A shape without the fields of the given names, at every depth.\<close>

fun drop_fields :: "string list \<Rightarrow> shape \<Rightarrow> shape"
  and drop_list :: "string list \<Rightarrow> (string \<times> bool \<times> shape) list \<Rightarrow> (string \<times> bool \<times> shape) list" where
  "drop_fields ks Any = Any"
| "drop_fields ks Str = Str"
| "drop_fields ks (Seq sh) = Seq (drop_fields ks sh)"
| "drop_fields ks (Rec fs) = Rec (drop_list ks fs)"
| "drop_list ks [] = []"
| "drop_list ks (f # fs) =
     (if fst f \<in> set ks then drop_list ks fs
      else (fst f, fst (snd f), drop_fields ks (snd (snd f))) # drop_list ks fs)"

section \<open>Properties of the handler\<close>

text \<open>
  The lemmas on \<open>handler_with\<close> hold for the handler of each of the three files; the
  theorems of the claims are stated for \<open>handler\<close>, the handler of
  \<^verbatim>\<open>src/api/generate.js\<close>.
\<close>

subsection \<open>The outbound calls of a run\<close>

lemma handler_with_calls_le_1: "length (snd (handler_with sch rt req)) \<le> 1"
  by (simp add: handler_with_def handler_try_def Let_def split: sum.splits prod.splits)

lemma handler_with_call_cases:
  assumes "c \<in> set (snd (handler_with sch rt req))"
  shows "req_method req = ''POST'' \<and>
     (\<exists>v f m. req_json req = Inr v \<and> destructure rt v = Inr f \<and>
        build_messages rt f = Inr m \<and> c = outbound rt (request_body sch f m) \<and>
        snd (handler_with sch rt req) = [c])"
  using assms
  by (auto simp add: handler_with_def handler_try_def Let_def
      split: sum.splits prod.splits if_splits)

lemma handler_try_after_call:
  assumes "c \<in> set (snd (handler_with sch rt req))"
  shows "handler_try sch rt req =
           ((case fetch rt c of Inl e \<Rightarrow> Inl e | Inr resp \<Rightarrow> relay rt resp), [c])"
  using assms
  by (auto simp add: handler_with_def handler_try_def Let_def
      split: sum.splits prod.splits if_splits)

text \<open>The calls of a POST request whose body is an object.\<close>

lemma handler_with_post_object:
  "snd (handler_with sch rt (post (JObj kvs))) =
     (case build_messages rt
             \<lparr>figmaUrl = map_of kvs ''figmaUrl'', brief = map_of kvs ''brief'',
              rules = map_of kvs ''rules'', model = map_of kvs ''model'',
              detail = map_of kvs ''detail'', imageDataUrl = map_of kvs ''imageDataUrl''\<rparr> of
        Inl e \<Rightarrow> []
      | Inr m \<Rightarrow>
          [outbound rt (request_body sch
             \<lparr>figmaUrl = map_of kvs ''figmaUrl'', brief = map_of kvs ''brief'',
              rules = map_of kvs ''rules'', model = map_of kvs ''model'',
              detail = map_of kvs ''detail'', imageDataUrl = map_of kvs ''imageDataUrl''\<rparr> m)])"
  by (simp add: handler_with_def handler_try_def post_def destructure_def Let_def
      split: sum.splits prod.splits)

text \<open>
  Claim C9. Every invocation hands at most one outbound request to \<^verbatim>\<open>fetch\<close> before it
  produces its response: the list of calls of a run never has two entries, so no call is
  repeated.
\<close>

theorem at_most_one_outbound_call: "length (snd (handler rt req)) \<le> 1"
  unfolding handler_def by (rule handler_with_calls_le_1)

subsection \<open>The method check\<close>

text \<open>
  Claim C2. A request whose method is not POST is answered with status 405 and the body
  \<^verbatim>\<open>Method Not Allowed\<close>, and the run makes no outbound call.
\<close>

theorem non_post_is_405_without_call:
  assumes "req_method req \<noteq> ''POST''"
  shows "handler rt req =
           (\<lparr>status = 405, body = ''Method Not Allowed'', headers = []\<rparr>, [])"
  using assms by (simp add: handler_def handler_with_def handler_try_def)

theorem non_post_is_405_without_call_witness:
  "''GET'' \<noteq> ''POST'' \<and>
   handler (example_runtime (Inr (completion (with_content (JStr ''x'')))))
       \<lparr>req_method = ''GET'', req_json = Inr (JObj [])\<rparr> =
     (\<lparr>status = 405, body = ''Method Not Allowed'', headers = []\<rparr>, [])"
  using non_post_is_405_without_call
    [of "\<lparr>req_method = ''GET'', req_json = Inr (JObj [])\<rparr>"
        "example_runtime (Inr (completion (with_content (JStr ''x''))))"]
  by simp

subsection \<open>Upstream failure\<close>

text \<open>
  Claim C4. When the outbound call of a run resolves to a response that is not ok, the
  handler answers with status 500; when the text of that response can be read, the body
  is \<^verbatim>\<open>OpenAI error: \<close> followed by that text, unchanged.
\<close>

theorem upstream_failure_is_500_with_text:
  assumes "c \<in> set (snd (handler rt req))" and "fetch rt c = Inr resp" and "\<not> ok resp"
  shows "status (fst (handler rt req)) = 500 \<and>
         (\<forall>t. text_result resp = Inr t \<longrightarrow>
              fst (handler rt req) =
                \<lparr>status = 500, body = ''OpenAI error: '' @ t, headers = []\<rparr>)"
  using handler_try_after_call[of c schema rt req] assms
  by (auto simp add: handler_def handler_with_def relay_def split: sum.splits)

lemma example_call:
  "snd (handler (example_runtime up) (post (JObj []))) \<noteq> []"
  by (simp add: handler_def handler_with_post_object build_messages_def user_text_def js_or_def)

theorem upstream_failure_is_500_with_text_witness:
  "hd (snd (handler (example_runtime (Inr (rejected ''quota exceeded''))) (post (JObj []))))
     \<in> set (snd (handler (example_runtime (Inr (rejected ''quota exceeded''))) (post (JObj [])))) \<and>
   \<not> ok (rejected ''quota exceeded'') \<and>
   fst (handler (example_runtime (Inr (rejected ''quota exceeded''))) (post (JObj []))) =
     \<lparr>status = 500, body = ''OpenAI error: quota exceeded'', headers = []\<rparr>"
proof -
  let ?rt = "example_runtime (Inr (rejected ''quota exceeded''))"
  let ?calls = "snd (handler ?rt (post (JObj [])))"
  have c: "hd ?calls \<in> set ?calls"
    using example_call[of "Inr (rejected ''quota exceeded'')"] by simp
  have f: "fetch ?rt (hd ?calls) = Inr (rejected ''quota exceeded'')"
    by (simp add: example_runtime_def)
  have n: "\<not> ok (rejected ''quota exceeded'')" by (simp add: rejected_def)
  have t: "text_result (rejected ''quota exceeded'') = Inr ''quota exceeded''"
    by (simp add: rejected_def)
  from upstream_failure_is_500_with_text[OF c f n] t c n show ?thesis by simp
qed

subsection \<open>Errors thrown inside the try block\<close>

text \<open>
  The places where the try block throws: parsing the body, destructuring \<^verbatim>\<open>null\<close>,
  building the prompt, the network call, and reading the upstream response.
\<close>

lemma thrown_is_caught:
  assumes "handler_try sch rt req = (Inl e, cs)"
  shows "handler_with sch rt req = (server_error e, cs)"
  using assms by (simp add: handler_with_def server_error_def)

lemma body_parsing_throws:
  assumes "req_method req = ''POST''" and "req_json req = Inl e"
  shows "handler_try sch rt req = (Inl e, [])"
  using assms by (simp add: handler_try_def)

lemma destructuring_null_throws:
  assumes "req_method req = ''POST''" and "req_json req = Inr JNull"
  shows "handler_try sch rt req = (Inl (destructure_error rt), [])"
  using assms by (simp add: handler_try_def destructure_def)

lemma prompt_construction_throws:
  assumes "req_method req = ''POST''" and "req_json req = Inr v"
    and "destructure rt v = Inr f" and "user_text rt f = Inl e"
  shows "handler_try sch rt req = (Inl e, [])"
  using assms by (simp add: handler_try_def build_messages_def)

lemma network_invocation_throws:
  assumes "c \<in> set (snd (handler_with sch rt req))" and "fetch rt c = Inl e"
  shows "handler_try sch rt req = (Inl e, [c])"
  using handler_try_after_call[OF assms(1)] assms(2) by simp

lemma reading_response_throws:
  assumes "c \<in> set (snd (handler_with sch rt req))" and "fetch rt c = Inr resp"
    and "relay rt resp = Inl e"
  shows "handler_try sch rt req = (Inl e, [c])"
  using handler_try_after_call[OF assms(1)] assms(2,3) by simp

lemma handler_with_status:
  "status (fst (handler_with sch rt req)) \<in> {200, 405, 500}"
  by (simp add: handler_with_def handler_try_def relay_def Let_def
      split: sum.splits prod.splits)

text \<open>The try statement never ends in an escaping error.\<close>

lemma handler_outcome_returns:
  "handler_outcome sch rt req =
     (Inr (fst (handler_with sch rt req)), snd (handler_with sch rt req))"
  by (simp add: handler_outcome_def handler_with_def catch_block_def
      split: prod.splits sum.splits)

text \<open>On a thrown value that is no Error object the catch block can throw itself.\<close>

lemma catch_block_on_undefined: "catch_block rt (Plain None) = Inl (property_error rt)"
  by (simp add: catch_block_def)

lemma fst_of_pair: "p = (a, b) \<Longrightarrow> fst p = a"
  by simp

lemma server_error_explicit:
  "server_error e =
     \<lparr>status = 500,
      body = ''Server error: '' @ (if err_message e \<noteq> [] then err_message e else err_name e),
      headers = []\<rparr>"
  by (simp add: server_error_def error_text_def)

text \<open>
  Claim C7. No error escapes the handler: the try statement always ends in a response,
  the one \<open>handler\<close> returns. An error thrown by the try block is answered with status
  500 and the body \<^verbatim>\<open>Server error: \<close> followed by the message of the error, or by its name
  when the message is empty, with the calls made so far. This holds for an error of
  body parsing, of destructuring \<^verbatim>\<open>null\<close>, of prompt construction, of the network call and
  of reading the upstream response. The status of every response is 200, 405 or 500.
\<close>

theorem thrown_error_is_500_with_description:
  "handler_outcome schema rt req = (Inr (fst (handler rt req)), snd (handler rt req)) \<and>
   (\<forall>e. server_error e =
      \<lparr>status = 500,
       body = ''Server error: '' @ (if err_message e \<noteq> [] then err_message e else err_name e),
       headers = []\<rparr>) \<and>
   (\<forall>e. req_method req = ''POST'' \<and> req_json req = Inl e \<longrightarrow>
      handler rt req = (server_error e, [])) \<and>
   (req_method req = ''POST'' \<and> req_json req = Inr JNull \<longrightarrow>
      handler rt req = (server_error (destructure_error rt), [])) \<and>
   (\<forall>v f e. req_method req = ''POST'' \<and> req_json req = Inr v \<and> destructure rt v = Inr f \<and>
        user_text rt f = Inl e \<longrightarrow>
      handler rt req = (server_error e, [])) \<and>
   (\<forall>c e. c \<in> set (snd (handler rt req)) \<and> fetch rt c = Inl e \<longrightarrow>
      handler rt req = (server_error e, [c])) \<and>
   (\<forall>c resp e. c \<in> set (snd (handler rt req)) \<and> fetch rt c = Inr resp \<and> relay rt resp = Inl e \<longrightarrow>
      handler rt req = (server_error e, [c])) \<and>
   status (fst (handler rt req)) \<in> {200, 405, 500}"
proof (intro conjI allI impI)
  show "handler_outcome schema rt req = (Inr (fst (handler rt req)), snd (handler rt req))"
    by (simp add: handler_def handler_outcome_returns)
next
  fix e show "server_error e =
      \<lparr>status = 500,
       body = ''Server error: '' @ (if err_message e \<noteq> [] then err_message e else err_name e),
       headers = []\<rparr>"
    by (rule server_error_explicit)
next
  fix e assume "req_method req = ''POST'' \<and> req_json req = Inl e"
  then have "handler_try schema rt req = (Inl e, [])" by (simp add: body_parsing_throws)
  then show "handler rt req = (server_error e, [])"
    unfolding handler_def by (rule thrown_is_caught)
next
  assume "req_method req = ''POST'' \<and> req_json req = Inr JNull"
  then have "handler_try schema rt req = (Inl (destructure_error rt), [])"
    by (simp add: destructuring_null_throws)
  then show "handler rt req = (server_error (destructure_error rt), [])"
    unfolding handler_def by (rule thrown_is_caught)
next
  fix v f e
  assume "req_method req = ''POST'' \<and> req_json req = Inr v \<and> destructure rt v = Inr f \<and>
        user_text rt f = Inl e"
  then have "handler_try schema rt req = (Inl e, [])"
    using prompt_construction_throws[of req v rt f e schema] by simp
  then show "handler rt req = (server_error e, [])"
    unfolding handler_def by (rule thrown_is_caught)
next
  fix c e assume "c \<in> set (snd (handler rt req)) \<and> fetch rt c = Inl e"
  then have "handler_try schema rt req = (Inl e, [c])"
    using network_invocation_throws[of c schema rt req e] by (simp add: handler_def)
  then show "handler rt req = (server_error e, [c])"
    unfolding handler_def by (rule thrown_is_caught)
next
  fix c resp e
  assume "c \<in> set (snd (handler rt req)) \<and> fetch rt c = Inr resp \<and> relay rt resp = Inl e"
  then have "handler_try schema rt req = (Inl e, [c])"
    using reading_response_throws[of c schema rt req resp e] by (simp add: handler_def)
  then show "handler rt req = (server_error e, [c])"
    unfolding handler_def by (rule thrown_is_caught)
next
  show "status (fst (handler rt req)) \<in> {200, 405, 500}"
    unfolding handler_def by (rule handler_with_status)
qed

theorem thrown_error_is_500_with_description_witness:
  "handler (example_runtime (Inr (rejected ''unused''))) zero_byte_post =
     (\<lparr>status = 500, body = ''Server error: Unexpected end of JSON input'', headers = []\<rparr>, []) \<and>
   handler (example_runtime (Inr (rejected ''unused''))) unconvertible_post =
     (\<lparr>status = 500, body = ''Server error: Cannot convert object to primitive value'',
       headers = []\<rparr>, []) \<and>
   length (snd (handler (example_runtime (Inl aborted)) (post (JObj [])))) = 1 \<and>
   fst (handler (example_runtime (Inl aborted)) (post (JObj []))) =
     \<lparr>status = 500, body = ''Server error: AbortError'', headers = []\<rparr>"
proof -
  let ?rt = "example_runtime (Inr (rejected ''unused''))"
  have z: "req_method zero_byte_post = ''POST'' \<and>
      req_json zero_byte_post = Inl (JsError ''SyntaxError'' ''Unexpected end of JSON input'')"
    by (simp add: zero_byte_post_def)
  from thrown_error_is_500_with_description[of ?rt zero_byte_post] z
  have "handler ?rt zero_byte_post =
      (server_error (JsError ''SyntaxError'' ''Unexpected end of JSON input''), [])"
    by blast
  then have 1: "handler ?rt zero_byte_post =
     (\<lparr>status = 500, body = ''Server error: Unexpected end of JSON input'', headers = []\<rparr>, [])"
    by (simp add: server_error_def error_text_def)
  let ?f = "\<lparr>figmaUrl = Some (JObj [(''toString'', JNull)]), brief = None, rules = None,
             model = None, detail = None, imageDataUrl = None\<rparr>"
  have u: "req_method unconvertible_post = ''POST'' \<and>
      req_json unconvertible_post = Inr (JObj [(''figmaUrl'', JObj [(''toString'', JNull)])]) \<and>
      destructure ?rt (JObj [(''figmaUrl'', JObj [(''toString'', JNull)])]) = Inr ?f \<and>
      user_text ?rt ?f = Inl (primitive_error ?rt)"
    by (simp add: unconvertible_post_def post_def destructure_def user_text_def js_or_def)
  from thrown_error_is_500_with_description[of ?rt unconvertible_post] u
  have "handler ?rt unconvertible_post = (server_error (primitive_error ?rt), [])"
    by blast
  then have 2: "handler ?rt unconvertible_post =
     (\<lparr>status = 500, body = ''Server error: Cannot convert object to primitive value'',
       headers = []\<rparr>, [])"
    by (simp add: server_error_def error_text_def example_runtime_def)
  let ?rn = "example_runtime (Inl aborted)"
  let ?calls = "snd (handler ?rn (post (JObj [])))"
  have l: "length ?calls = 1"
    by (simp add: handler_def handler_with_post_object build_messages_def user_text_def js_or_def)
  then have c: "hd ?calls \<in> set ?calls" by (cases ?calls) auto
  have f: "fetch ?rn (hd ?calls) = Inl aborted" by (simp add: example_runtime_def)
  from thrown_error_is_500_with_description[of ?rn "post (JObj [])"] c f
  have "handler ?rn (post (JObj [])) = (server_error aborted, [hd ?calls])" by blast
  then have "fst (handler ?rn (post (JObj []))) = server_error aborted"
    by (rule fst_of_pair)
  then have 3: "fst (handler ?rn (post (JObj []))) =
     \<lparr>status = 500, body = ''Server error: AbortError'', headers = []\<rparr>"
    by (simp add: server_error_def error_text_def aborted_def)
  from 1 2 l 3 show ?thesis by simp
qed

subsection \<open>Defaults of an empty body\<close>

text \<open>
  Claim C5, as the code has it. For a POST request whose body is the empty object, the
  run makes exactly one outbound call, whatever \<^verbatim>\<open>fetch\<close> does with it: a POST to the chat
  completions endpoint with the bearer token and the JSON content type. Its user message
  carries the text with \<^verbatim>\<open>N/A\<close> for the Figma URL and the brief, \<^verbatim>\<open>standard\<close> for the
  detail and nothing for the rules; the model is \<^verbatim>\<open>gpt-5\<close>. For a POST request on which
  \<^verbatim>\<open>req.json()\<close> rejects, a body of zero bytes among them, the run makes no outbound call
  and the status is 500.
\<close>

theorem empty_object_body_defaults_and_one_call:
  "snd (handler rt (post (JObj []))) =
     [\<lparr>url = ''https://api.openai.com/v1/chat/completions'',
       http_method = ''POST'',
       http_headers =
         [(''Authorization'',
             ''Bearer '' @ (case api_key rt of None \<Rightarrow> ''undefined'' | Some k \<Rightarrow> k)),
          (''Content-Type'', ''application/json'')],
       payload = JObj [
        (''model'', JStr ''gpt-5''),
        (''messages'', JArr [
           JObj [(''role'', JStr ''system''), (''content'', JStr system_content)],
           JObj [(''role'', JStr ''user''),
                 (''content'', JArr [JObj [(''type'', JStr ''text''), (''text'', JStr
  ''FIGMA: N/A\<newline>BRIEF: N/A\<newline>DETAIL: standard\<newline>RULES (YAML or text):\<newline>\<newline>\<newline>Please infer intents from UI labels and flows if present. Produce comprehensive but concise artifacts.\<newline>Link stories/tests/model via trace where obvious.'')]])]]),
        (''response_format'',
           JObj [(''type'', JStr ''json_schema''), (''json_schema'', schema)])]\<rparr>] \<and>
   (\<forall>e. req_method req = ''POST'' \<and> req_json req = Inl e \<longrightarrow>
      snd (handler rt req) = [] \<and> status (fst (handler rt req)) = 500)"
proof (intro conjI allI impI)
  show "snd (handler rt (post (JObj []))) =
     [\<lparr>url = ''https://api.openai.com/v1/chat/completions'',
       http_method = ''POST'',
       http_headers =
         [(''Authorization'',
             ''Bearer '' @ (case api_key rt of None \<Rightarrow> ''undefined'' | Some k \<Rightarrow> k)),
          (''Content-Type'', ''application/json'')],
       payload = JObj [
        (''model'', JStr ''gpt-5''),
        (''messages'', JArr [
           JObj [(''role'', JStr ''system''), (''content'', JStr system_content)],
           JObj [(''role'', JStr ''user''),
                 (''content'', JArr [JObj [(''type'', JStr ''text''), (''text'', JStr
  ''FIGMA: N/A\<newline>BRIEF: N/A\<newline>DETAIL: standard\<newline>RULES (YAML or text):\<newline>\<newline>\<newline>Please infer intents from UI labels and flows if present. Produce comprehensive but concise artifacts.\<newline>Link stories/tests/model via trace where obvious.'')]])]]),
        (''response_format'',
           JObj [(''type'', JStr ''json_schema''), (''json_schema'', schema)])]\<rparr>]"
    by (simp add: handler_def handler_with_post_object build_messages_def user_text_def
        js_or_def image_parts_def request_body_def outbound_def)
next
  fix e assume a: "req_method req = ''POST'' \<and> req_json req = Inl e"
  then have t: "handler_try schema rt req = (Inl e, [])" by (simp add: body_parsing_throws)
  from t show "snd (handler rt req) = []" by (simp add: handler_def handler_with_def)
  from t show "status (fst (handler rt req)) = 500" by (simp add: handler_def handler_with_def)
qed

theorem empty_object_body_defaults_and_one_call_witness:
  "req_method zero_byte_post = ''POST'' \<and>
   req_json zero_byte_post = Inl (JsError ''SyntaxError'' ''Unexpected end of JSON input'') \<and>
   snd (handler (example_runtime (Inr (completion (with_content (JStr ''x''))))) zero_byte_post) = [] \<and>
   status (fst (handler (example_runtime (Inr (completion (with_content (JStr ''x''))))) zero_byte_post)) = 500"
proof -
  have a: "req_method zero_byte_post = ''POST'' \<and>
    req_json zero_byte_post = Inl (JsError ''SyntaxError'' ''Unexpected end of JSON input'')"
    by (simp add: zero_byte_post_def)
  from empty_object_body_defaults_and_one_call
         [of "example_runtime (Inr (completion (with_content (JStr ''x''))))" zero_byte_post] a
  show ?thesis by blast
qed

text \<open>
  Claim C5 as stated fails on a POST request with a body of zero bytes: no default is
  substituted and no outbound call is made, the handler answers with status 500.
\<close>

theorem zero_byte_body_is_500_without_call:
  "req_method zero_byte_post = ''POST'' \<and>
   handler (example_runtime (Inr (completion (with_content (JStr ''x''))))) zero_byte_post =
     (\<lparr>status = 500, body = ''Server error: Unexpected end of JSON input'', headers = []\<rparr>, [])"
  by (simp add: zero_byte_post_def handler_def handler_with_def handler_try_def error_text_def)

subsection \<open>The outbound payload\<close>

lemma handler_with_payload:
  assumes "req_json req = Inr v" and "c \<in> set (snd (handler_with sch rt req))"
  shows "\<exists>f t. destructure rt v = Inr f \<and> user_text rt f = Inr t \<and>
     payload c = JObj [
        (''model'', js_or (get_prop v ''model'') (JStr ''gpt-5'')),
        (''messages'', JArr [
           JObj [(''role'', JStr ''system''), (''content'', JStr system_content)],
           JObj [(''role'', JStr ''user''),
                 (''content'', JArr (JObj [(''type'', JStr ''text''), (''text'', JStr t)]
                                      # image_parts f))]]),
        (''response_format'',
           JObj [(''type'', JStr ''json_schema''), (''json_schema'', sch)])]"
proof -
  from handler_with_call_cases[OF assms(2)] assms(1)
  obtain f m where f: "destructure rt v = Inr f" and m: "build_messages rt f = Inr m"
    and c: "c = outbound rt (request_body sch f m)" by auto
  from m obtain t where t: "user_text rt f = Inr t"
    and m': "m = JArr [JObj [(''role'', JStr ''system''), (''content'', JStr system_content)],
             JObj [(''role'', JStr ''user''),
                   (''content'', JArr ([JObj [(''type'', JStr ''text''), (''text'', JStr t)]]
                                      @ image_parts f))]]"
    by (auto simp add: build_messages_def split: sum.splits)
  from f have mo: "model f = get_prop v ''model''"
    by (auto simp add: destructure_def split: if_splits)
  show ?thesis using f t c m' mo by (simp add: outbound_def request_body_def)
qed

text \<open>
  Claim C8. The payload of every outbound call is an object of exactly three fields, in
  this order: \<^verbatim>\<open>model\<close>, \<^verbatim>\<open>messages\<close> and \<^verbatim>\<open>response_format\<close>. The messages are the
  system message followed by the user message, the response format is
  \<^verbatim>\<open>{type: "json_schema", json_schema: schema()}\<close>, and the model is \<^verbatim>\<open>gpt-5\<close> when the
  body names none and the model of the body when that is a non-empty string.
\<close>

theorem outbound_body_has_three_fields:
  assumes "req_json req = Inr v" and "c \<in> set (snd (handler rt req))"
  shows "(\<exists>m parts. payload c = JObj [
            (''model'', m),
            (''messages'', JArr [
               JObj [(''role'', JStr ''system''), (''content'', JStr system_content)],
               JObj [(''role'', JStr ''user''), (''content'', JArr parts)]]),
            (''response_format'',
               JObj [(''type'', JStr ''json_schema''), (''json_schema'', schema)])]) \<and>
         (get_prop v ''model'' = None \<longrightarrow> get_prop (payload c) ''model'' = Some (JStr ''gpt-5'')) \<and>
         (\<forall>m. get_prop v ''model'' = Some (JStr m) \<and> m \<noteq> [] \<longrightarrow>
              get_prop (payload c) ''model'' = Some (JStr m))"
proof -
  from handler_with_payload[OF assms(1), of c schema rt] assms(2)
  obtain f t where p: "payload c = JObj [
        (''model'', js_or (get_prop v ''model'') (JStr ''gpt-5'')),
        (''messages'', JArr [
           JObj [(''role'', JStr ''system''), (''content'', JStr system_content)],
           JObj [(''role'', JStr ''user''),
                 (''content'', JArr (JObj [(''type'', JStr ''text''), (''text'', JStr t)]
                                      # image_parts f))]]),
        (''response_format'',
           JObj [(''type'', JStr ''json_schema''), (''json_schema'', schema)])]"
    by (auto simp add: handler_def)
  show ?thesis
  proof (intro conjI allI impI)
    show "\<exists>m parts. payload c = JObj [
            (''model'', m),
            (''messages'', JArr [
               JObj [(''role'', JStr ''system''), (''content'', JStr system_content)],
               JObj [(''role'', JStr ''user''), (''content'', JArr parts)]]),
            (''response_format'',
               JObj [(''type'', JStr ''json_schema''), (''json_schema'', schema)])]"
      using p by blast
  next
    assume "get_prop v ''model'' = None"
    then show "get_prop (payload c) ''model'' = Some (JStr ''gpt-5'')"
      using p by (simp add: js_or_def)
  next
    fix m assume "get_prop v ''model'' = Some (JStr m) \<and> m \<noteq> []"
    then show "get_prop (payload c) ''model'' = Some (JStr m)"
      using p by (simp add: js_or_def)
  qed
qed

theorem outbound_body_has_three_fields_witness:
  "req_json (post (JObj [(''model'', JStr ''gpt-4o'')])) = Inr (JObj [(''model'', JStr ''gpt-4o'')]) \<and>
   hd (snd (handler (example_runtime (Inr (rejected ''x''))) (post (JObj [(''model'', JStr ''gpt-4o'')]))))
     \<in> set (snd (handler (example_runtime (Inr (rejected ''x''))) (post (JObj [(''model'', JStr ''gpt-4o'')])))) \<and>
   get_prop (payload (hd (snd (handler (example_runtime (Inr (rejected ''x'')))
        (post (JObj [(''model'', JStr ''gpt-4o'')])))))) ''model'' = Some (JStr ''gpt-4o'')"
proof -
  let ?rt = "example_runtime (Inr (rejected ''x''))"
  let ?v = "JObj [(''model'', JStr ''gpt-4o'')]"
  let ?calls = "snd (handler ?rt (post ?v))"
  have r: "req_json (post ?v) = Inr ?v" by (simp add: post_def)
  have "?calls \<noteq> []"
    by (simp add: handler_def handler_with_post_object build_messages_def user_text_def js_or_def)
  then have c: "hd ?calls \<in> set ?calls" by simp
  have g: "get_prop ?v ''model'' = Some (JStr ''gpt-4o'') \<and> ''gpt-4o'' \<noteq> []" by simp
  from outbound_body_has_three_fields[OF r c] g
  have "get_prop (payload (hd ?calls)) ''model'' = Some (JStr ''gpt-4o'')" by blast
  with r c show ?thesis by simp
qed

subsection \<open>The image part\<close>

text \<open>
  Claim C6, as the code has it. The user message of an outbound call holds one image
  part, of type \<^verbatim>\<open>image_url\<close> and carrying the value of \<^verbatim>\<open>imageDataUrl\<close>, exactly when
  that value is truthy; it holds none when the key is absent or its value is falsy (the
  empty string, \<^verbatim>\<open>null\<close>, \<^verbatim>\<open>false\<close>, zero). The text part always comes first.
\<close>

theorem image_part_iff_truthy:
  assumes "req_json req = Inr v" and "c \<in> set (snd (handler rt req))"
  shows "filter is_image_part (user_content (payload c)) =
           (case get_prop v ''imageDataUrl'' of
              None \<Rightarrow> []
            | Some u \<Rightarrow>
                if truthy (Some u)
                then [JObj [(''type'', JStr ''image_url''), (''image_url'', JObj [(''url'', u)])]]
                else []) \<and>
         length (user_content (payload c)) =
           (if truthy (get_prop v ''imageDataUrl'') then 2 else 1)"
proof -
  from handler_with_payload[OF assms(1), of c schema rt] assms(2)
  obtain f t where f: "destructure rt v = Inr f" and p: "payload c = JObj [
        (''model'', js_or (get_prop v ''model'') (JStr ''gpt-5'')),
        (''messages'', JArr [
           JObj [(''role'', JStr ''system''), (''content'', JStr system_content)],
           JObj [(''role'', JStr ''user''),
                 (''content'', JArr (JObj [(''type'', JStr ''text''), (''text'', JStr t)]
                                      # image_parts f))]]),
        (''response_format'',
           JObj [(''type'', JStr ''json_schema''), (''json_schema'', schema)])]"
    by (auto simp add: handler_def)
  from f have i: "imageDataUrl f = get_prop v ''imageDataUrl''"
    by (auto simp add: destructure_def split: if_splits)
  have u: "user_content (payload c) =
             JObj [(''type'', JStr ''text''), (''text'', JStr t)] # image_parts f"
    by (simp add: p user_content_def)
  show ?thesis
    by (simp add: u i image_parts_def is_image_part_def split: option.splits)
qed

theorem image_part_iff_truthy_witness:
  "req_json (post (JObj [(''imageDataUrl'', JStr ''data:image/png;base64,AAAA'')])) =
     Inr (JObj [(''imageDataUrl'', JStr ''data:image/png;base64,AAAA'')]) \<and>
   hd (snd (handler (example_runtime (Inr (rejected ''x'')))
        (post (JObj [(''imageDataUrl'', JStr ''data:image/png;base64,AAAA'')]))))
     \<in> set (snd (handler (example_runtime (Inr (rejected ''x'')))
        (post (JObj [(''imageDataUrl'', JStr ''data:image/png;base64,AAAA'')])))) \<and>
   filter is_image_part (user_content (payload (hd (snd (handler (example_runtime (Inr (rejected ''x'')))
        (post (JObj [(''imageDataUrl'', JStr ''data:image/png;base64,AAAA'')]))))))) =
     [JObj [(''type'', JStr ''image_url''),
            (''image_url'', JObj [(''url'', JStr ''data:image/png;base64,AAAA'')])]]"
proof -
  let ?rt = "example_runtime (Inr (rejected ''x''))"
  let ?v = "JObj [(''imageDataUrl'', JStr ''data:image/png;base64,AAAA'')]"
  let ?calls = "snd (handler ?rt (post ?v))"
  have r: "req_json (post ?v) = Inr ?v" by (simp add: post_def)
  have "?calls \<noteq> []"
    by (simp add: handler_def handler_with_post_object build_messages_def user_text_def js_or_def)
  then have c: "hd ?calls \<in> set ?calls" by simp
  from image_part_iff_truthy[OF r c] r c show ?thesis by simp
qed

text \<open>
  Claim C6 as stated fails on the body \<^verbatim>\<open>{"imageDataUrl": ""}\<close>: the key is present, a
  call is made and its user message has no image part.
\<close>

theorem empty_image_key_adds_no_part:
  "get_prop (JObj [(''imageDataUrl'', JStr [])]) ''imageDataUrl'' = Some (JStr []) \<and>
   length (snd (handler (example_runtime (Inr (rejected ''x'')))
        (post (JObj [(''imageDataUrl'', JStr [])])))) = 1 \<and>
   filter is_image_part (user_content (payload (hd (snd (handler (example_runtime (Inr (rejected ''x'')))
        (post (JObj [(''imageDataUrl'', JStr [])]))))))) = []"
  by (simp add: handler_def handler_with_post_object build_messages_def user_text_def js_or_def
      image_parts_def outbound_def request_body_def user_content_def is_image_part_def)

subsection \<open>Relaying the completion\<close>

lemma first_choice_content_with_content:
  "first_choice_content rt (with_content c) = Inr (Some c)"
  by (simp add: first_choice_content_def with_content_def opt_chain_def)

text \<open>
  Claim C3, as the code has it. Let the outbound call resolve to an ok response. When its
  body parses to a document other than \<^verbatim>\<open>null\<close>, the handler looks at the content of the
  message of the first choice. For a non-empty string it answers with status 200, the
  content type \<^verbatim>\<open>application/json\<close> and that string as body; for an absent or falsy
  content (\<^verbatim>\<open>null\<close>, \<^verbatim>\<open>false\<close>, zero, the empty string) the body is \<^verbatim>\<open>{}\<close>; for any other
  truthy content the body is its string conversion. When that conversion throws, when the
  body does not parse, or when it parses to \<^verbatim>\<open>null\<close>, the answer is status 500 with
  \<^verbatim>\<open>Server error: \<close> and the description of the error.
\<close>

theorem success_relays_content_or_placeholder:
  assumes "c \<in> set (snd (handler rt req))" and "fetch rt c = Inr resp" and "ok resp"
  shows "(\<forall>data content. json_result resp = Inr data \<and> first_choice_content rt data = Inr content \<longrightarrow>
            (\<forall>s. content = Some (JStr s) \<and> s \<noteq> [] \<longrightarrow>
               fst (handler rt req) =
                 \<lparr>status = 200, body = s, headers = [(''Content-Type'', ''application/json'')]\<rparr>) \<and>
            (\<not> truthy content \<longrightarrow>
               fst (handler rt req) =
                 \<lparr>status = 200, body = ''{}'', headers = [(''Content-Type'', ''application/json'')]\<rparr>) \<and>
            (\<forall>v s. content = Some v \<and> truthy content \<and> to_string (primitive_error rt) v = Inr s \<longrightarrow>
               fst (handler rt req) =
                 \<lparr>status = 200, body = s, headers = [(''Content-Type'', ''application/json'')]\<rparr>) \<and>
            (\<forall>v e. content = Some v \<and> truthy content \<and> to_string (primitive_error rt) v = Inl e \<longrightarrow>
               fst (handler rt req) =
                 \<lparr>status = 500,
                  body = ''Server error: '' @ (if err_message e \<noteq> [] then err_message e else err_name e),
                  headers = []\<rparr>)) \<and>
         (\<forall>e. json_result resp = Inl e \<longrightarrow>
            fst (handler rt req) =
              \<lparr>status = 500,
               body = ''Server error: '' @ (if err_message e \<noteq> [] then err_message e else err_name e),
               headers = []\<rparr>) \<and>
         (json_result resp = Inr JNull \<longrightarrow>
            fst (handler rt req) =
              \<lparr>status = 500,
               body = ''Server error: '' @
                 (if err_message (property_error rt) \<noteq> [] then err_message (property_error rt)
                  else err_name (property_error rt)),
               headers = []\<rparr>)"
proof -
  have t: "handler_try schema rt req = (relay rt resp, [c])"
    using handler_try_after_call[of c schema rt req] assms(1,2) by (simp add: handler_def)
  have h: "fst (handler rt req) =
     (case relay rt resp of Inr r \<Rightarrow> r
      | Inl e \<Rightarrow> \<lparr>status = 500,
               body = ''Server error: '' @ (if err_message e \<noteq> [] then err_message e else err_name e),
               headers = []\<rparr>)"
    by (simp add: handler_def handler_with_def t error_text_def split: sum.splits)
  show ?thesis
  proof (intro conjI allI impI)
    fix data content s
    assume a: "json_result resp = Inr data \<and> first_choice_content rt data = Inr content"
      and b: "content = Some (JStr s) \<and> s \<noteq> []"
    then have "relay rt resp = Inr \<lparr>status = 200, body = s,
                  headers = [(''Content-Type'', ''application/json'')]\<rparr>"
      using assms(3) by (simp add: relay_def js_or_def)
    then show "fst (handler rt req) =
              \<lparr>status = 200, body = s, headers = [(''Content-Type'', ''application/json'')]\<rparr>"
      by (simp add: h)
  next
    fix data content
    assume a: "json_result resp = Inr data \<and> first_choice_content rt data = Inr content"
      and b: "\<not> truthy content"
    from b have "js_or content (JStr ''{}'') = JStr ''{}''"
      by (cases content) (simp_all add: js_or_def)
    with a have "relay rt resp = Inr \<lparr>status = 200, body = ''{}'',
                  headers = [(''Content-Type'', ''application/json'')]\<rparr>"
      using assms(3) by (simp add: relay_def)
    then show "fst (handler rt req) =
              \<lparr>status = 200, body = ''{}'', headers = [(''Content-Type'', ''application/json'')]\<rparr>"
      by (simp add: h)
  next
    fix data content v s
    assume a: "json_result resp = Inr data \<and> first_choice_content rt data = Inr content"
      and b: "content = Some v \<and> truthy content \<and> to_string (primitive_error rt) v = Inr s"
    from b have "js_or content (JStr ''{}'') = v" by (auto simp add: js_or_def)
    with a b have "relay rt resp = Inr \<lparr>status = 200, body = s,
                  headers = [(''Content-Type'', ''application/json'')]\<rparr>"
      using assms(3) by (simp add: relay_def)
    then show "fst (handler rt req) =
              \<lparr>status = 200, body = s, headers = [(''Content-Type'', ''application/json'')]\<rparr>"
      by (simp add: h)
  next
    fix data content v e
    assume a: "json_result resp = Inr data \<and> first_choice_content rt data = Inr content"
      and b: "content = Some v \<and> truthy content \<and> to_string (primitive_error rt) v = Inl e"
    from b have "js_or content (JStr ''{}'') = v" by (auto simp add: js_or_def)
    with a b have "relay rt resp = Inl e"
      using assms(3) by (simp add: relay_def)
    then show "fst (handler rt req) =
              \<lparr>status = 500,
               body = ''Server error: '' @ (if err_message e \<noteq> [] then err_message e else err_name e),
               headers = []\<rparr>"
      by (simp add: h)
  next
    fix e assume "json_result resp = Inl e"
    then have "relay rt resp = Inl e" using assms(3) by (simp add: relay_def)
    then show "fst (handler rt req) =
              \<lparr>status = 500,
               body = ''Server error: '' @ (if err_message e \<noteq> [] then err_message e else err_name e),
               headers = []\<rparr>"
      by (simp add: h)
  next
    assume "json_result resp = Inr JNull"
    then have "relay rt resp = Inl (property_error rt)"
      using assms(3) by (simp add: relay_def first_choice_content_def)
    then show "fst (handler rt req) =
              \<lparr>status = 500,
               body = ''Server error: '' @
                 (if err_message (property_error rt) \<noteq> [] then err_message (property_error rt)
                  else err_name (property_error rt)),
               headers = []\<rparr>"
      by (simp add: h)
  qed
qed

theorem success_relays_content_or_placeholder_witness:
  "hd (snd (handler (example_runtime (Inr (completion (with_content (JStr ''[1,2]''))))) (post (JObj []))))
     \<in> set (snd (handler (example_runtime (Inr (completion (with_content (JStr ''[1,2]''))))) (post (JObj [])))) \<and>
   ok (completion (with_content (JStr ''[1,2]''))) \<and>
   json_result (completion (with_content (JStr ''[1,2]''))) = Inr (with_content (JStr ''[1,2]'')) \<and>
   fst (handler (example_runtime (Inr (completion (with_content (JStr ''[1,2]''))))) (post (JObj []))) =
     \<lparr>status = 200, body = ''[1,2]'', headers = [(''Content-Type'', ''application/json'')]\<rparr> \<and>
   fst (handler (example_runtime (Inr (completion (with_content (JObj [(''toString'', JNull)])))))
          (post (JObj []))) =
     \<lparr>status = 500, body = ''Server error: Cannot convert object to primitive value'',
      headers = []\<rparr>"
proof -
  let ?resp = "completion (with_content (JStr ''[1,2]''))"
  let ?rt = "example_runtime (Inr ?resp)"
  let ?calls = "snd (handler ?rt (post (JObj [])))"
  have "?calls \<noteq> []"
    by (simp add: handler_def handler_with_post_object build_messages_def user_text_def js_or_def)
  then have c: "hd ?calls \<in> set ?calls" by simp
  have f: "fetch ?rt (hd ?calls) = Inr ?resp" by (simp add: example_runtime_def)
  have k: "ok ?resp" by (simp add: completion_def)
  have j: "json_result ?resp = Inr (with_content (JStr ''[1,2]''))" by (simp add: completion_def)
  have fc: "first_choice_content ?rt (with_content (JStr ''[1,2]'')) = Inr (Some (JStr ''[1,2]''))"
    by (simp add: first_choice_content_with_content)
  have n: "''[1,2]'' \<noteq> []" by simp
  from success_relays_content_or_placeholder[OF c f k] j fc n
  have 1: "fst (handler ?rt (post (JObj []))) =
     \<lparr>status = 200, body = ''[1,2]'', headers = [(''Content-Type'', ''application/json'')]\<rparr>"
    by blast
  let ?obj = "JObj [(''toString'', JNull)]"
  let ?resp' = "completion (with_content ?obj)"
  let ?rt' = "example_runtime (Inr ?resp')"
  let ?calls' = "snd (handler ?rt' (post (JObj [])))"
  have "?calls' \<noteq> []"
    by (simp add: handler_def handler_with_post_object build_messages_def user_text_def js_or_def)
  then have c': "hd ?calls' \<in> set ?calls'" by simp
  have f': "fetch ?rt' (hd ?calls') = Inr ?resp'" by (simp add: example_runtime_def)
  have k': "ok ?resp'" by (simp add: completion_def)
  have j': "json_result ?resp' = Inr (with_content ?obj)" by (simp add: completion_def)
  have fc': "first_choice_content ?rt' (with_content ?obj) = Inr (Some ?obj)"
    by (simp add: first_choice_content_with_content)
  have t': "truthy (Some ?obj) \<and>
      to_string (primitive_error ?rt') ?obj =
        Inl (JsError ''TypeError'' ''Cannot convert object to primitive value'')"
    by (simp add: example_runtime_def)
  from success_relays_content_or_placeholder[OF c' f' k'] j' fc' t'
  have "fst (handler ?rt' (post (JObj []))) =
     \<lparr>status = 500,
      body = ''Server error: '' @
        (if err_message (JsError ''TypeError'' ''Cannot convert object to primitive value'') \<noteq> []
         then err_message (JsError ''TypeError'' ''Cannot convert object to primitive value'')
         else err_name (JsError ''TypeError'' ''Cannot convert object to primitive value'')),
      headers = []\<rparr>"
    by blast
  then have 2: "fst (handler ?rt' (post (JObj []))) =
     \<lparr>status = 500, body = ''Server error: Cannot convert object to primitive value'',
      headers = []\<rparr>"
    by simp
  from c k j 1 2 show ?thesis by simp
qed

text \<open>
  Claim C3 as stated fails on an ok response whose body is not JSON: \<^verbatim>\<open>resp.json()\<close>
  rejects and the catch block answers with status 500.
\<close>

theorem success_status_unparsable_body_is_500:
  "req_method (post (JObj [])) = ''POST'' \<and>
   length (snd (handler (example_runtime (Inr unparsable)) (post (JObj [])))) = 1 \<and>
   fetch (example_runtime (Inr unparsable))
     (hd (snd (handler (example_runtime (Inr unparsable)) (post (JObj []))))) = Inr unparsable \<and>
   ok unparsable \<and>
   fst (handler (example_runtime (Inr unparsable)) (post (JObj []))) =
     \<lparr>status = 500, body = ''Server error: Unexpected token'', headers = []\<rparr>"
proof -
  let ?rt = "example_runtime (Inr unparsable)"
  have l: "length (snd (handler ?rt (post (JObj [])))) = 1"
    by (simp add: handler_def handler_with_post_object build_messages_def user_text_def js_or_def)
  have r: "fst (handler ?rt (post (JObj []))) =
     \<lparr>status = 500, body = ''Server error: Unexpected token'', headers = []\<rparr>"
    by (simp add: handler_def handler_with_def handler_try_def post_def destructure_def
        build_messages_def user_text_def js_or_def example_runtime_def relay_def
        unparsable_def error_text_def Let_def)
  from l r show ?thesis by (simp add: post_def example_runtime_def unparsable_def)
qed

subsection \<open>Empty strings count as absent\<close>

lemma map_of_filter_distinct:
  "distinct (map fst kvs) \<Longrightarrow>
   map_of (filter P kvs) k =
     (case map_of kvs k of None \<Rightarrow> None | Some v \<Rightarrow> if P (k, v) then Some v else None)"
proof (induction kvs)
  case Nil
  then show ?case by simp
next
  case (Cons kv kvs)
  obtain k' v' where kv: "kv = (k', v')" by (cases kv)
  from Cons.prems kv have fresh: "map_of kvs k' = None"
    by (simp add: map_of_eq_None_iff)
  from Cons.prems have IH: "map_of (filter P kvs) k =
     (case map_of kvs k of None \<Rightarrow> None | Some v \<Rightarrow> if P (k, v) then Some v else None)"
    using Cons.IH by simp
  show ?case
  proof (cases "k = k'")
    case True
    with kv fresh IH show ?thesis by simp
  next
    case False
    with kv IH show ?thesis by simp
  qed
qed

lemma js_or_filtered:
  assumes "distinct (map fst kvs)"
  shows "js_or (map_of (filter (\<lambda>kv. snd kv \<noteq> JStr []) kvs) k) d = js_or (map_of kvs k) d"
  using map_of_filter_distinct[OF assms, of "\<lambda>kv. snd kv \<noteq> JStr []" k]
  by (auto simp add: js_or_def split: option.splits)

lemma image_parts_filtered:
  assumes "distinct (map fst kvs)"
    and "imageDataUrl f = map_of kvs ''imageDataUrl''"
    and "imageDataUrl f' = map_of (filter (\<lambda>kv. snd kv \<noteq> JStr []) kvs) ''imageDataUrl''"
  shows "image_parts f' = image_parts f"
  using map_of_filter_distinct[OF assms(1), of "\<lambda>kv. snd kv \<noteq> JStr []" "''imageDataUrl''"]
    assms(2,3)
  by (auto simp add: image_parts_def split: option.splits)

lemma handler_with_filtered:
  assumes "distinct (map fst kvs)"
  shows "handler_with sch rt (post (JObj (filter (\<lambda>kv. snd kv \<noteq> JStr []) kvs))) =
         handler_with sch rt (post (JObj kvs))"
proof -
  let ?kvs' = "filter (\<lambda>kv. snd kv \<noteq> JStr []) kvs"
  obtain f where f: "destructure rt (JObj kvs) = Inr f" by (simp add: destructure_def)
  obtain f' where f': "destructure rt (JObj ?kvs') = Inr f'" by (simp add: destructure_def)
  have fu: "js_or (figmaUrl f') d = js_or (figmaUrl f) d" for d
    using f f' js_or_filtered[OF assms] by (auto simp add: destructure_def)
  have br: "js_or (brief f') d = js_or (brief f) d" for d
    using f f' js_or_filtered[OF assms] by (auto simp add: destructure_def)
  have de: "js_or (detail f') d = js_or (detail f) d" for d
    using f f' js_or_filtered[OF assms] by (auto simp add: destructure_def)
  have ru: "js_or (rules f') d = js_or (rules f) d" for d
    using f f' js_or_filtered[OF assms] by (auto simp add: destructure_def)
  have mo: "js_or (model f') d = js_or (model f) d" for d
    using f f' js_or_filtered[OF assms] by (auto simp add: destructure_def)
  have ut: "user_text rt f' = user_text rt f"
    unfolding user_text_def fu br de ru ..
  have ip: "image_parts f' = image_parts f"
    using f f' by (intro image_parts_filtered[OF assms]) (auto simp add: destructure_def)
  have bm: "build_messages rt f' = build_messages rt f"
    unfolding build_messages_def ut ip ..
  have rb: "request_body sch f' m = request_body sch f m" for m
    by (simp add: request_body_def mo)
  have "handler_try sch rt (post (JObj ?kvs')) = handler_try sch rt (post (JObj kvs))"
    unfolding handler_try_def post_def by (simp add: f f' bm rb cong: sum.case_cong)
  then show ?thesis by (simp add: handler_with_def)
qed

text \<open>
  Claim C10. The defaults are decided by truthiness. A POST body with a field equal to
  the empty string is handled exactly as the body without that field. So a body with
  \<^verbatim>\<open>figmaUrl\<close>, \<^verbatim>\<open>brief\<close>, \<^verbatim>\<open>detail\<close>, \<^verbatim>\<open>model\<close> and \<^verbatim>\<open>imageDataUrl\<close> all empty sends
  \<^verbatim>\<open>N/A\<close>, \<^verbatim>\<open>N/A\<close>, \<^verbatim>\<open>standard\<close>, the model \<^verbatim>\<open>gpt-5\<close> and no image part.
\<close>

theorem empty_string_field_is_like_absent:
  "(distinct (map fst kvs) \<longrightarrow>
      handler rt (post (JObj kvs)) =
      handler rt (post (JObj (filter (\<lambda>kv. snd kv \<noteq> JStr []) kvs)))) \<and>
   snd (handler rt (post (JObj [(''figmaUrl'', JStr []), (''brief'', JStr []),
          (''detail'', JStr []), (''model'', JStr []), (''imageDataUrl'', JStr [])]))) =
     [outbound rt (JObj [
        (''model'', JStr ''gpt-5''),
        (''messages'', JArr [
           JObj [(''role'', JStr ''system''), (''content'', JStr system_content)],
           JObj [(''role'', JStr ''user''),
                 (''content'', JArr [JObj [(''type'', JStr ''text''), (''text'', JStr
  ''FIGMA: N/A\<newline>BRIEF: N/A\<newline>DETAIL: standard\<newline>RULES (YAML or text):\<newline>\<newline>\<newline>Please infer intents from UI labels and flows if present. Produce comprehensive but concise artifacts.\<newline>Link stories/tests/model via trace where obvious.'')]])]]),
        (''response_format'',
           JObj [(''type'', JStr ''json_schema''), (''json_schema'', schema)])])]"
proof (intro conjI impI)
  assume "distinct (map fst kvs)"
  then show "handler rt (post (JObj kvs)) =
      handler rt (post (JObj (filter (\<lambda>kv. snd kv \<noteq> JStr []) kvs)))"
    unfolding handler_def by (rule handler_with_filtered[symmetric])
next
  show "snd (handler rt (post (JObj [(''figmaUrl'', JStr []), (''brief'', JStr []),
          (''detail'', JStr []), (''model'', JStr []), (''imageDataUrl'', JStr [])]))) =
     [outbound rt (JObj [
        (''model'', JStr ''gpt-5''),
        (''messages'', JArr [
           JObj [(''role'', JStr ''system''), (''content'', JStr system_content)],
           JObj [(''role'', JStr ''user''),
                 (''content'', JArr [JObj [(''type'', JStr ''text''), (''text'', JStr
  ''FIGMA: N/A\<newline>BRIEF: N/A\<newline>DETAIL: standard\<newline>RULES (YAML or text):\<newline>\<newline>\<newline>Please infer intents from UI labels and flows if present. Produce comprehensive but concise artifacts.\<newline>Link stories/tests/model via trace where obvious.'')]])]]),
        (''response_format'',
           JObj [(''type'', JStr ''json_schema''), (''json_schema'', schema)])])]"
    by (simp add: handler_def handler_with_post_object build_messages_def user_text_def
      js_or_def image_parts_def request_body_def)
qed

theorem empty_string_field_is_like_absent_witness:
  "distinct (map fst [(''brief'', JStr []), (''detail'', JStr ''deep'')]) \<and>
   handler (example_runtime (Inr (rejected ''x'')))
       (post (JObj [(''brief'', JStr []), (''detail'', JStr ''deep'')])) =
   handler (example_runtime (Inr (rejected ''x''))) (post (JObj [(''detail'', JStr ''deep'')]))"
  using empty_string_field_is_like_absent
    [of "[(''brief'', JStr []), (''detail'', JStr ''deep'')]" "example_runtime (Inr (rejected ''x''))"]
  by simp

section \<open>The schema against its documented shape\<close>

lemma handler_with_sent_schema:
  assumes "c \<in> set (snd (handler_with sch rt req))"
  shows "sent_schema (payload c) = Some sch"
proof -
  from handler_with_call_cases[OF assms] obtain v where "req_json req = Inr v" by blast
  from handler_with_payload[OF this assms] show ?thesis
    by (auto simp add: sent_schema_def opt_chain_def)
qed

lemma schema_conforms_permissive:
  "conforms True (bundle_shape (Rec []) (Rec []) False) (root_of schema)"
  by (simp add: bundle_shape_def root_of_def schema_def type_is_def properties_of_def
      required_of_def same_members_def)

lemma schema_part_001_conforms_optional:
  "conforms True
     (bundle_shape
        (Rec [(''ui_nodes'', False, Any), (''entities'', False, Any)])
        (Rec [(''uiComponentsCoveredPct'', False, Any), (''fieldsWithTestsPct'', False, Any)])
        False)
     (root_of schema_part_001)"
  by (simp add: bundle_shape_def root_of_def schema_part_001_def type_is_def properties_of_def
      required_of_def same_members_def)

lemma schema_part_000_conforms_reduced:
  "conforms True
     (drop_fields [''trace'', ''examples'', ''selectors'', ''constraints'', ''enum'',
                   ''relations'', ''jsonSchemas'', ''sqlDDL'']
        (bundle_shape Any
           (Rec [(''uiComponentsCoveredPct'', False, Any), (''fieldsWithTestsPct'', False, Any)])
           True))
     (root_of schema_part_000)"
  by (simp add: bundle_shape_def root_of_def schema_part_000_def type_is_def properties_of_def
      required_of_def same_members_def)

lemma schema_part_000_lacks_fields:
  "\<not> conforms rq (bundle_shape t cv e) (root_of schema_part_000)"
  by (simp add: bundle_shape_def root_of_def schema_part_000_def type_is_def properties_of_def
      required_of_def same_members_def)

text \<open>
  Claim C1, as the code has it. Every outbound call carries the value of \<^verbatim>\<open>schema()\<close> of
  its file as \<^verbatim>\<open>json_schema\<close>. Each variant has the five documented top-level fields, all
  required. Against the documented field names, nesting and required lists:
  \<^item> \<^verbatim>\<open>src/api/generate.js\<close> has the documented shape, except that \<^verbatim>\<open>trace\<close> and
    \<^verbatim>\<open>coverage\<close> are objects without declared fields and that \<^verbatim>\<open>uiDataModel\<close> requires
    nothing;
  \<^item> \<^verbatim>\<open>src/unnamed/part_001\<close> has the documented shape, except that \<^verbatim>\<open>ui_nodes\<close> and
    \<^verbatim>\<open>entities\<close> under \<^verbatim>\<open>trace\<close>, the two percentages under \<^verbatim>\<open>coverage\<close> and \<^verbatim>\<open>entities\<close>
    under \<^verbatim>\<open>uiDataModel\<close> are optional;
  \<^item> \<^verbatim>\<open>src/unnamed/part_000\<close> has the documented shape without the fields \<^verbatim>\<open>trace\<close>,
    \<^verbatim>\<open>examples\<close>, \<^verbatim>\<open>selectors\<close>, \<^verbatim>\<open>constraints\<close>, \<^verbatim>\<open>enum\<close>, \<^verbatim>\<open>relations\<close>,
    \<^verbatim>\<open>jsonSchemas\<close> and \<^verbatim>\<open>sqlDDL\<close>, with the two percentages under \<^verbatim>\<open>coverage\<close> optional
    and \<^verbatim>\<open>entities\<close> required; for want of those fields it does not have the documented
    field names.
\<close>

theorem sent_schema_is_variant_shape:
  "(\<forall>c\<in>set (snd (handler rt req)). sent_schema (payload c) = Some schema) \<and>
   (\<forall>c\<in>set (snd (handler_part_000 rt req)). sent_schema (payload c) = Some schema_part_000) \<and>
   (\<forall>c\<in>set (snd (handler_part_001 rt req)). sent_schema (payload c) = Some schema_part_001) \<and>
   conforms True (bundle_shape (Rec []) (Rec []) False) (root_of schema) \<and>
   conforms True
     (bundle_shape
        (Rec [(''ui_nodes'', False, Any), (''entities'', False, Any)])
        (Rec [(''uiComponentsCoveredPct'', False, Any), (''fieldsWithTestsPct'', False, Any)])
        False)
     (root_of schema_part_001) \<and>
   conforms True
     (drop_fields [''trace'', ''examples'', ''selectors'', ''constraints'', ''enum'',
                   ''relations'', ''jsonSchemas'', ''sqlDDL'']
        (bundle_shape Any
           (Rec [(''uiComponentsCoveredPct'', False, Any), (''fieldsWithTestsPct'', False, Any)])
           True))
     (root_of schema_part_000) \<and>
   \<not> conforms rq (bundle_shape t cv e) (root_of schema_part_000)"
proof (intro conjI ballI)
  fix c assume "c \<in> set (snd (handler rt req))"
  then show "sent_schema (payload c) = Some schema"
    unfolding handler_def by (rule handler_with_sent_schema)
next
  fix c assume "c \<in> set (snd (handler_part_000 rt req))"
  then show "sent_schema (payload c) = Some schema_part_000"
    unfolding handler_part_000_def by (rule handler_with_sent_schema)
next
  fix c assume "c \<in> set (snd (handler_part_001 rt req))"
  then show "sent_schema (payload c) = Some schema_part_001"
    unfolding handler_part_001_def by (rule handler_with_sent_schema)
next
  show "conforms True (bundle_shape (Rec []) (Rec []) False) (root_of schema)"
    by (rule schema_conforms_permissive)
next
  show "conforms True
     (bundle_shape
        (Rec [(''ui_nodes'', False, Any), (''entities'', False, Any)])
        (Rec [(''uiComponentsCoveredPct'', False, Any), (''fieldsWithTestsPct'', False, Any)])
        False)
     (root_of schema_part_001)"
    by (rule schema_part_001_conforms_optional)
next
  show "conforms True
     (drop_fields [''trace'', ''examples'', ''selectors'', ''constraints'', ''enum'',
                   ''relations'', ''jsonSchemas'', ''sqlDDL'']
        (bundle_shape Any
           (Rec [(''uiComponentsCoveredPct'', False, Any), (''fieldsWithTestsPct'', False, Any)])
           True))
     (root_of schema_part_000)"
    by (rule schema_part_000_conforms_reduced)
next
  show "\<not> conforms rq (bundle_shape t cv e) (root_of schema_part_000)"
    by (rule schema_part_000_lacks_fields)
qed

theorem sent_schema_is_variant_shape_witness:
  "snd (handler (example_runtime (Inr (rejected ''x''))) (post (JObj []))) \<noteq> [] \<and>
   sent_schema (payload (hd (snd (handler (example_runtime (Inr (rejected ''x''))) (post (JObj []))))))
     = Some schema"
proof -
  let ?calls = "snd (handler (example_runtime (Inr (rejected ''x''))) (post (JObj [])))"
  have n: "?calls \<noteq> []"
    by (simp add: handler_def handler_with_post_object build_messages_def user_text_def js_or_def)
  then have c: "hd ?calls \<in> set ?calls" by simp
  from sent_schema_is_variant_shape[of "example_runtime (Inr (rejected ''x''))" "post (JObj [])"] c
  have "sent_schema (payload (hd ?calls)) = Some schema" by blast
  with n show ?thesis by simp
qed

text \<open>
  Claim C1 as stated fails on \<^verbatim>\<open>src/api/generate.js\<close>: the schema it sends does not have
  the documented shape, even on names and nesting alone, since \<^verbatim>\<open>trace\<close> declares neither
  \<^verbatim>\<open>ui_nodes\<close> nor \<^verbatim>\<open>entities\<close> and \<^verbatim>\<open>coverage\<close> declares no percentage.
\<close>

theorem sent_schema_lacks_documented_names:
  "length (snd (handler (example_runtime (Inr (rejected ''x''))) (post (JObj [])))) = 1 \<and>
   sent_schema (payload (hd (snd (handler (example_runtime (Inr (rejected ''x''))) (post (JObj []))))))
     = Some schema \<and>
   \<not> conforms False documented_shape (root_of schema)"
proof -
  let ?calls = "snd (handler (example_runtime (Inr (rejected ''x''))) (post (JObj [])))"
  have l: "length ?calls = 1"
    by (simp add: handler_def handler_with_post_object build_messages_def user_text_def js_or_def)
  then have "hd ?calls \<in> set ?calls" by (cases ?calls) auto
  then have s: "sent_schema (payload (hd ?calls)) = Some schema"
    unfolding handler_def by (rule handler_with_sent_schema)
  have "\<not> conforms False documented_shape (root_of schema)"
    by (simp add: documented_shape_def bundle_shape_def root_of_def schema_def type_is_def
        properties_of_def required_of_def same_members_def)
  with l s show ?thesis by simp
qed

end
